theory Spec2Isabelle
  imports Complex_Main "HOL-Library.Multiset" "HOL-Library.Log_Nat"
begin

section \<open>Data model of the editor (src/App.tsx)\<close>

text \<open>
  Strings are lists of code units restricted to the range 0..255, so an accented letter of
  a message is one character (\<open>CHR 0xF3\<close> for o-acute). A \<open>File\<close> is the browser's
  File object: its name, its MIME type and its bytes.
\<close>

datatype File = File (file_name: string) (file_type: string) (file_bytes: "nat list")

datatype Tab = Retouch | Adjust | Filters | CropTab

text \<open>
  A JavaScript number, an IEEE-754 binary64 value: a finite value (a rational that the
  format holds exactly), one of the two infinities, or NaN. The sign of a zero is not
  represented: the two zeros are equal under \<open>===\<close> and print alike.
\<close>

datatype jsnum = Fin rat | PosInf | NegInf | NaN

record hotspot =
  hotspot_x :: jsnum
  hotspot_y :: jsnum

text \<open>
  The crop rectangle of react-image-crop; its unit is \<open>px\<close> or \<open>%\<close>, and \<open>px\<close> in
  a completed crop.
\<close>

record Crop =
  crop_x :: rat
  crop_y :: rat
  crop_width :: rat
  crop_height :: rat
  crop_unit :: string

record editor =
  history :: "File list"
  historyIndex :: int
  prompt :: string
  isLoading :: bool
  error :: "string option"
  editHotspot :: "hotspot option"
  displayHotspot :: "hotspot option"
  activeTab :: Tab
  crop :: "Crop option"
  completedCrop :: "Crop option"

subsection \<open>Array primitives of the language\<close>

text \<open>\<open>xs[i] ?? null\<close>: an index outside the array reads \<open>undefined\<close>, which becomes \<open>null\<close>.\<close>

definition js_index :: "'a list \<Rightarrow> int \<Rightarrow> 'a option" where
  "js_index xs i = (if 0 \<le> i \<and> i < int (length xs) then Some (xs ! nat i) else None)"

text \<open>
  \<open>xs.slice(0, e)\<close>: a negative end counts from the end of the array, and the end is
  clamped to the bounds.
\<close>

definition js_slice0 :: "'a list \<Rightarrow> int \<Rightarrow> 'a list" where
  "js_slice0 xs e =
     (let len = int (length xs);
          final = (if e < 0 then max (len + e) 0 else min e len)
      in take (nat final) xs)"

subsection \<open>The history manager\<close>

definition currentImage :: "editor \<Rightarrow> File option" where
  "currentImage st = js_index (history st) (historyIndex st)"

definition originalImage :: "editor \<Rightarrow> File option" where
  "originalImage st = js_index (history st) 0"

definition canUndo :: "editor \<Rightarrow> bool" where
  "canUndo st = (historyIndex st > 0)"

definition canRedo :: "editor \<Rightarrow> bool" where
  "canRedo st = (historyIndex st < int (length (history st)) - 1)"

definition addImageToHistory :: "editor \<Rightarrow> File \<Rightarrow> editor" where
  "addImageToHistory st newImageFile =
     (let newHistory = js_slice0 (history st) (historyIndex st + 1) @ [newImageFile]
      in st\<lparr>history := newHistory,
             historyIndex := int (length newHistory) - 1,
             crop := None,
             completedCrop := None\<rparr>)"

definition loadFileIntoEditor :: "editor \<Rightarrow> File \<Rightarrow> editor" where
  "loadFileIntoEditor st file =
     st\<lparr>error := None,
         history := [file],
         historyIndex := 0,
         editHotspot := None,
         displayHotspot := None,
         activeTab := Retouch,
         crop := None,
         completedCrop := None\<rparr>"

definition handleUndo :: "editor \<Rightarrow> editor" where
  "handleUndo st =
     (if canUndo st
      then st\<lparr>historyIndex := historyIndex st - 1, editHotspot := None, displayHotspot := None\<rparr>
      else st)"

definition handleRedo :: "editor \<Rightarrow> editor" where
  "handleRedo st =
     (if canRedo st
      then st\<lparr>historyIndex := historyIndex st + 1, editHotspot := None, displayHotspot := None\<rparr>
      else st)"

definition handleReset :: "editor \<Rightarrow> editor" where
  "handleReset st =
     (if length (history st) > 0
      then st\<lparr>historyIndex := 0, error := None, editHotspot := None, displayHotspot := None\<rparr>
      else st)"

text \<open>
  \<open>addImageToHistory\<close> is a \<open>useCallback\<close> closure over \<open>history\<close> and
  \<open>historyIndex\<close>: a handler calls the callback of the render in which the handler
  started. The handlers of the retouch, filter and adjustment edits call it after an
  \<open>await\<close>, when the state can have moved on; so the new history and cursor are computed
  from the state of that render (\<open>st_call\<close>) and written over the state at the time of the
  call (\<open>st_now\<close>). With \<open>st_call = st_now\<close> this is \<open>addImageToHistory\<close>.
\<close>

definition addImageToHistory_from :: "editor \<Rightarrow> editor \<Rightarrow> File \<Rightarrow> editor" where
  "addImageToHistory_from st_call st_now newImageFile =
     st_now\<lparr>history := history (addImageToHistory st_call newImageFile),
            historyIndex := historyIndex (addImageToHistory st_call newImageFile),
            crop := None,
            completedCrop := None\<rparr>"

text \<open>
  A session of the editor as the list of its renders, oldest first, and the events that
  add a render: a load of a file, the completion of an edit that was started in render
  \<open>k\<close> (an edit starts only in a render that shows an image), an undo and a redo. The
  handlers of load, undo and redo run at once, on the latest render.
\<close>

datatype hist_op = Load File | Commit nat File | Undo | Redo

fun hist_step :: "editor list \<Rightarrow> hist_op \<Rightarrow> editor list" where
  "hist_step rs (Load f) = rs @ [loadFileIntoEditor (last rs) f]"
| "hist_step rs (Commit k f) =
     (if k < length rs \<and> currentImage (rs ! k) \<noteq> None
      then rs @ [addImageToHistory_from (rs ! k) (last rs) f]
      else rs)"
| "hist_step rs Undo = rs @ [handleUndo (last rs)]"
| "hist_step rs Redo = rs @ [handleRedo (last rs)]"

definition hist_run :: "editor \<Rightarrow> hist_op list \<Rightarrow> editor list" where
  "hist_run st ops = foldl hist_step [st] ops"

fun is_load :: "hist_op \<Rightarrow> bool" where
  "is_load (Load f) = True"
| "is_load a = False"

definition cursor_in_range :: "editor \<Rightarrow> bool" where
  "cursor_in_range st = (0 \<le> historyIndex st \<and> historyIndex st \<le> int (length (history st)) - 1)"

subsection \<open>The localized edit (handleGenerate)\<close>

text \<open>
  \<open>String.prototype.trim\<close> removes white space and line terminators at both ends. Of
  these, the code units below 256 are tab, line feed, vertical tab, form feed, carriage
  return, space and the no-break space.
\<close>

definition is_js_space :: "char \<Rightarrow> bool" where
  "is_js_space c = (of_char c \<in> {9, 10, 11, 12, 13, 32, 160 :: nat})"

definition trim :: "string \<Rightarrow> string" where
  "trim s = rev (dropWhile is_js_space (rev (dropWhile is_js_space s)))"

definition msg_no_image :: string where
  "msg_no_image = ''No hay imagen cargada para editar.''"

definition msg_no_prompt :: string where
  "msg_no_prompt = ''Por favor ingresa una descripci'' @ [CHR 0xF3] @ ''n para tu edici''
     @ [CHR 0xF3] @ ''n.''"

definition msg_no_hotspot :: string where
  "msg_no_hotspot = ''Por favor haz clic en la imagen para seleccionar un ''
     @ [CHR 0xE1] @ ''rea a editar.''"

definition msg_unknown :: string where
  "msg_unknown = ''Ocurri'' @ [CHR 0xF3] @ '' un error desconocido.''"

text \<open>The arguments of one call of the network adapter \<open>generateEditedImage\<close>.\<close>

record edit_request =
  req_image :: File
  req_prompt :: string
  req_hotspot :: hotspot

text \<open>
  The part of \<open>handleGenerate\<close> that runs before the first \<open>await\<close>: the three local
  checks in the order of the source, then the loading flag. The second component is the
  request handed to the network adapter, \<open>None\<close> when the handler returned before it.
\<close>

definition handleGenerate :: "editor \<Rightarrow> editor \<times> edit_request option" where
  "handleGenerate st =
     (case currentImage st of
        None \<Rightarrow> (st\<lparr>error := Some msg_no_image\<rparr>, None)
      | Some img \<Rightarrow>
          if trim (prompt st) = [] then (st\<lparr>error := Some msg_no_prompt\<rparr>, None)
          else (case editHotspot st of
                  None \<Rightarrow> (st\<lparr>error := Some msg_no_hotspot\<rparr>, None)
                | Some h \<Rightarrow>
                    (st\<lparr>isLoading := True, error := None\<rparr>,
                     Some \<lparr>req_image = img, req_prompt = prompt st, req_hotspot = h\<rparr>)))"

text \<open>
  What the \<open>try\<close> block caught: an \<open>Error\<close> object with its message, or any other value.
\<close>

datatype thrown = ErrorObj string | NonError

text \<open>
  The part of \<open>handleGenerate\<close> after the \<open>await\<close>. The result is the file made from the
  returned data URL, or what \<open>generateEditedImage\<close> or \<open>dataURLtoFile\<close> threw.
  \<open>addImageToHistory\<close> is the callback of the render in which the handler started, so it
  reads the history and the cursor of that render (\<open>st_call\<close>); the setters act on the
  state at the time of completion (\<open>st_now\<close>).
\<close>

definition handleGenerate_settle :: "editor \<Rightarrow> editor \<Rightarrow> thrown + File \<Rightarrow> editor" where
  "handleGenerate_settle st_call st_now res =
     (case res of
        Inr newImageFile \<Rightarrow>
          (addImageToHistory_from st_call st_now newImageFile)
            \<lparr>editHotspot := None, displayHotspot := None, isLoading := False\<rparr>
      | Inl err \<Rightarrow>
          st_now\<lparr>error := Some (''Error al generar la imagen. ''
                     @ (case err of ErrorObj m \<Rightarrow> m | NonError \<Rightarrow> msg_unknown)),
                 isLoading := False\<rparr>)"

subsection \<open>Arithmetic on numbers\<close>

text \<open>
  Rounding of an exact value to binary64 (53 significant bits, exponents from -1022 to
  1023, round to nearest with ties to even, gradual underflow, overflow to infinity):
  \<open>ilog2 x\<close> is the exponent of the positive \<open>x\<close>, the spacing of the format near
  \<open>x\<close> is \<open>2 ^ (e - 52)\<close>, and \<open>x\<close> goes to the nearest multiple of it.
\<close>

definition pow2 :: "int \<Rightarrow> rat" where
  "pow2 k = (if 0 \<le> k then 2 ^ nat k else 1 / 2 ^ nat (- k))"

definition ilog2 :: "rat \<Rightarrow> int" where
  "ilog2 x =
     (let d = bitlen (fst (quotient_of x)) - bitlen (snd (quotient_of x))
      in if pow2 d \<le> x then d else d - 1)"

definition round_half_even :: "rat \<Rightarrow> int" where
  "round_half_even t =
     (let f = \<lfloor>t\<rfloor>; d = t - of_int f
      in if d < 1 / 2 then f else if 1 / 2 < d then f + 1 else if even f then f else f + 1)"

definition to_double :: "rat \<Rightarrow> jsnum" where
  "to_double x =
     (if x = 0 then Fin 0
      else
        let e = max (ilog2 \<bar>x\<bar>) (- 1022);
            q = pow2 (e - 52);
            v = of_int (round_half_even (\<bar>x\<bar> / q)) * q
        in if pow2 1024 \<le> v then (if 0 < x then PosInf else NegInf)
           else Fin (if 0 < x then v else - v))"

text \<open>
  The operators \<open>-\<close>, \<open>/\<close> and \<open>*\<close> on numbers: the exact result, rounded. The
  operands of \<open>-\<close> and \<open>/\<close> in the click handler are finite; a zero divisor is a width
  or a height, the positive zero.
\<close>

definition jssub :: "rat \<Rightarrow> rat \<Rightarrow> jsnum" where
  "jssub a b = to_double (a - b)"

definition jsdiv :: "rat \<Rightarrow> rat \<Rightarrow> jsnum" where
  "jsdiv a b =
     (if b \<noteq> 0 then to_double (a / b)
      else if a = 0 then NaN else if a > 0 then PosInf else NegInf)"

fun jsmul :: "jsnum \<Rightarrow> jsnum \<Rightarrow> jsnum" where
  "jsmul (Fin a) (Fin b) = to_double (a * b)"
| "jsmul (Fin a) PosInf = (if a = 0 then NaN else if a > 0 then PosInf else NegInf)"
| "jsmul (Fin a) NegInf = (if a = 0 then NaN else if a > 0 then NegInf else PosInf)"
| "jsmul PosInf (Fin b) = (if b = 0 then NaN else if b > 0 then PosInf else NegInf)"
| "jsmul NegInf (Fin b) = (if b = 0 then NaN else if b > 0 then NegInf else PosInf)"
| "jsmul PosInf PosInf = PosInf"
| "jsmul PosInf NegInf = NegInf"
| "jsmul NegInf PosInf = NegInf"
| "jsmul NegInf NegInf = PosInf"
| "jsmul NaN b = NaN"
| "jsmul a NaN = NaN"

text \<open>
  \<open>Math.round\<close>: the integer nearest to the argument, the upper one in a tie; and
  \<open>Math.floor\<close>. Both are exact, and leave infinities and NaN as they are.
\<close>

fun jsround :: "jsnum \<Rightarrow> jsnum" where
  "jsround (Fin r) = Fin (of_int \<lfloor>r + 1 / 2\<rfloor>)"
| "jsround PosInf = PosInf"
| "jsround NegInf = NegInf"
| "jsround NaN = NaN"

fun jsfloor :: "jsnum \<Rightarrow> jsnum" where
  "jsfloor (Fin r) = Fin (of_int \<lfloor>r\<rfloor>)"
| "jsfloor PosInf = PosInf"
| "jsfloor NegInf = NegInf"
| "jsfloor NaN = NaN"

subsection \<open>The click on the image (handleImageClick)\<close>

text \<open>
  What the handler reads from the mouse event and from the image element: the pointer
  position and the corner of the element's bounding rectangle (numbers), and the natural
  and displayed sizes of the image (whole numbers of pixels below \<open>2 ^ 32\<close>).
\<close>

record click_event =
  clientX :: rat
  clientY :: rat
  rect_left :: rat
  rect_top :: rat
  naturalWidth :: nat
  naturalHeight :: nat
  clientWidth :: nat
  clientHeight :: nat

definition handleImageClick :: "editor \<Rightarrow> click_event \<Rightarrow> editor" where
  "handleImageClick st e =
     (if activeTab st \<noteq> Retouch then st
      else
        let offsetX = jssub (clientX e) (rect_left e);
            offsetY = jssub (clientY e) (rect_top e);
            scaleX = jsdiv (of_nat (naturalWidth e)) (of_nat (clientWidth e));
            scaleY = jsdiv (of_nat (naturalHeight e)) (of_nat (clientHeight e));
            originalX = jsround (jsmul offsetX scaleX);
            originalY = jsround (jsmul offsetY scaleY)
        in st\<lparr>displayHotspot := Some \<lparr>hotspot_x = offsetX, hotspot_y = offsetY\<rparr>,
               editHotspot := Some \<lparr>hotspot_x = originalX, hotspot_y = originalY\<rparr>\<rparr>)"

section \<open>The variation orchestrator (src/App.tsx)\<close>

record VariationResult =
  id_v :: string
  label :: string
  prompt_v :: string
  url :: "string option"
  loading :: bool
  error_v :: "string option"

record generator =
  adBaseImage :: "File option"
  customAdPrompt :: string
  variations :: "VariationResult list"

text \<open>The first argument is the identifier drawn by \<open>crypto.randomUUID()\<close>.\<close>

definition createVariation :: "string \<Rightarrow> string \<Rightarrow> string \<Rightarrow> VariationResult" where
  "createVariation uuid lbl p =
     \<lparr>id_v = uuid, label = lbl, prompt_v = p, url = None, loading = True, error_v = None\<rparr>"

text \<open>
  How the request of one variation ends: \<open>generateAdVariation\<close> returns a data URL, or it
  throws a value whose \<open>message\<close> is a string or is missing.
\<close>

datatype outcome = Fulfilled string | Rejected "string option"

text \<open>\<open>e.message || 'Error'\<close>: a missing or empty message gives the default.\<close>

definition message_or_default :: "string option \<Rightarrow> string" where
  "message_or_default m = (case m of None \<Rightarrow> ''Error'' | Some s \<Rightarrow> if s = [] then ''Error'' else s)"

text \<open>The two object spreads of \<open>processVariation\<close>.\<close>

fun settle_record :: "outcome \<Rightarrow> VariationResult \<Rightarrow> VariationResult" where
  "settle_record (Fulfilled u) v = v\<lparr>url := Some u, loading := False\<rparr>"
| "settle_record (Rejected m) v = v\<lparr>error_v := Some (message_or_default m), loading := False\<rparr>"

text \<open>
  \<open>processVariation\<close>. The base image is the one of the render in which the handler ran;
  the list is the one at the time the request ends, since the update is a function of the
  previous list. Without a base image the function returns before any request or update.
\<close>

definition processVariation ::
  "File option \<Rightarrow> VariationResult \<Rightarrow> outcome \<Rightarrow> VariationResult list \<Rightarrow> VariationResult list" where
  "processVariation base variation oc prev =
     (case base of
        None \<Rightarrow> prev
      | Some img \<Rightarrow> map (\<lambda>v. if id_v v = id_v variation then settle_record oc v else v) prev)"

text \<open>
  \<open>handleGenerateCustom\<close>: the state after the handler, and the variation handed to
  \<open>processVariation\<close> (none when the prompt is blank).
\<close>

definition handleGenerateCustom :: "generator \<Rightarrow> string \<Rightarrow> generator \<times> VariationResult option" where
  "handleGenerateCustom g uuid =
     (if trim (customAdPrompt g) = [] then (g, None)
      else
        let newVariation = createVariation uuid ''Personalizado'' (customAdPrompt g)
        in (g\<lparr>variations := newVariation # variations g, customAdPrompt := []\<rparr>,
            Some newVariation))"

text \<open>
  A run of request completions, in the order in which they arrive: each is a call of
  \<open>processVariation\<close> for its variation, with the base image the handler saw.
\<close>

definition run_completions ::
  "File option \<Rightarrow> VariationResult list \<Rightarrow> (VariationResult \<times> outcome) list \<Rightarrow> VariationResult list" where
  "run_completions base vs evs = foldl (\<lambda>acc (v, oc). processVariation base v oc acc) vs evs"

definition in_flight :: "VariationResult \<Rightarrow> bool" where
  "in_flight v = (loading v \<and> url v = None \<and> error_v v = None)"

definition resolved :: "VariationResult \<Rightarrow> bool" where
  "resolved v = (\<not> loading v \<and> url v \<noteq> None)"

definition failed :: "VariationResult \<Rightarrow> bool" where
  "failed v = (\<not> loading v \<and> error_v v \<noteq> None)"

fun is_fulfilled :: "outcome \<Rightarrow> bool" where
  "is_fulfilled (Fulfilled u) = True"
| "is_fulfilled (Rejected m) = False"

text \<open>
  The outcome that a run of completions holds for an identifier, and the record that a
  run leaves in the place of a record.
\<close>

definition outcome_of :: "(VariationResult \<times> outcome) list \<Rightarrow> string \<Rightarrow> outcome option" where
  "outcome_of evs = map_of (map (\<lambda>(v, oc). (id_v v, oc)) evs)"

definition settle_all :: "(VariationResult \<times> outcome) list \<Rightarrow> VariationResult \<Rightarrow> VariationResult" where
  "settle_all evs w = (case outcome_of evs (id_v w) of None \<Rightarrow> w | Some oc \<Rightarrow> settle_record oc w)"

subsection \<open>Instructions by category (handleGenerateStrategy, handleGenerateMix)\<close>

text \<open>
  The table \<open>AD_STRATEGIES\<close>, in the order of its keys. The five stars of one
  instruction are code units above 255; they are written as the bytes of their UTF-8
  form. No function of the model looks into an instruction.
\<close>

definition AD_STRATEGIES :: "(string \<times> string list) list" where
  "AD_STRATEGIES =
    [
     (''Texto'',
       [
        ''Add a short, punchy headline in English (max 4 words) at the top like '' @ [CHR 0x27] @ ''BEST SELLER'' @ [CHR 0x27] @ '' or '' @ [CHR 0x27] @ ''NEW ARRIVAL'' @ [CHR 0x27] @ ''.'',
        ''Add text overlaid that emphasizes a benefit (e.g., '' @ [CHR 0x27] @ ''Fast Results'' @ [CHR 0x27] @ '' or '' @ [CHR 0x27] @ ''High Quality'' @ [CHR 0x27] @ '').'',
        ''Place a bold promotional text at the bottom saying '' @ [CHR 0x27] @ ''Shop Now'' @ [CHR 0x27] @ ''.'',
        ''Remove any existing text and keep the product clean and minimalist.''
       ]),
     (''Fondo'',
       [
        ''Change the background to a solid dark color (like matte black or navy) to make the product pop.'',
        ''Change the background to a solid light pastel color for a soft look.'',
        ''Change the background to a vibrant brand color like bright yellow or red.'',
        ''Set the background to pure clean white, DTC style.'',
        ''Add a subtle texture to the background like concrete or marble.''
       ]),
     (''CTA'',
       [
        ''Add a visible '' @ [CHR 0x27] @ ''Shop Now'' @ [CHR 0x27] @ '' button graphic in the bottom right corner.'',
        ''Add a textual Call to Action '' @ [CHR 0x27] @ ''Discover More'' @ [CHR 0x27] @ '' in a stylish font.'',
        ''Add an '' @ [CHR 0x27] @ ''Offer Ends Soon'' @ [CHR 0x27] @ '' element in the top corner.''
       ]),
     (''Producto'',
       [
        ''Zoom in slightly on the product to show more detail.'',
        ''Show the product in a lifestyle context (e.g., on a table, in a hand).'',
        ''Give the product a 3D mockup feel with dynamic lighting.''
       ]),
     (''Composici'' @ [CHR 0xF3] @ ''n'',
       [
        ''Center the product perfectly with symmetrical spacing.'',
        ''Place the product to one side leaving negative space for text on the other.'',
        ''Add a thin elegant frame or border around the image.''
       ]),
     (''Prueba Social'',
       [
        ''Add a graphic overlay of 5 stars ('' @ [CHR 0xE2, CHR 0xAD, CHR 0x90, CHR 0xE2, CHR 0xAD, CHR 0x90, CHR 0xE2, CHR 0xAD, CHR 0x90, CHR 0xE2, CHR 0xAD, CHR 0x90, CHR 0xE2, CHR 0xAD, CHR 0x90] @ '') to suggest high ratings.'',
        ''Add a small badge saying '' @ [CHR 0x27] @ ''Customer Favorite'' @ [CHR 0x27] @ ''.'',
        ''Add a short quote visual saying '' @ [CHR 0x27] @ ''Highly Recommended'' @ [CHR 0x27] @ ''.''
       ]),
     (''Urgencia'',
       [
        ''Add a '' @ [CHR 0x27] @ ''Limited Edition'' @ [CHR 0x27] @ '' label.'',
        ''Add a '' @ [CHR 0x27] @ ''Flash Sale -20%'' @ [CHR 0x27] @ '' badge.'',
        ''Add a '' @ [CHR 0x27] @ ''Today Only'' @ [CHR 0x27] @ '' sticker graphic.''
       ]),
     (''Color'',
       [
        ''Increase the saturation and vibrance of the product colors.'',
        ''Change the color palette to be warm (golden hour tones).'',
        ''Change the color palette to be cool and sleek (blues and silvers).''
       ]),
     (''Simple'',
       [
        ''Simple variation: Solid contrasting background color.'',
        ''Simple variation: Minimalist with no text or distractions.'',
        ''Simple variation: Add a simple border.''
       ])
    ]"

text \<open>\<open>Object.keys(AD_STRATEGIES)\<close>.\<close>

definition categories :: "string list" where
  "categories = map fst AD_STRATEGIES"

text \<open>
  A value that \<open>Math.random()\<close> can return: a binary64 number, at least 0 and below 1.
\<close>

definition is_double :: "rat \<Rightarrow> bool" where
  "is_double r = (to_double r = Fin r)"

definition is_draw :: "rat \<Rightarrow> bool" where
  "is_draw r = (is_double r \<and> 0 \<le> r \<and> r < 1)"

text \<open>\<open>Math.floor(Math.random() * prompts.length)\<close> for the draw \<open>r\<close>.\<close>

definition random_index :: "rat \<Rightarrow> nat \<Rightarrow> jsnum" where
  "random_index r n = jsfloor (jsmul (Fin r) (Fin (of_nat n)))"

text \<open>
  \<open>prompts[Math.floor(Math.random() * prompts.length)]\<close> with
  \<open>prompts = AD_STRATEGIES[category]\<close>. For a name that is not a key, \<open>prompts\<close> is
  \<open>undefined\<close> and reading its length throws a TypeError (\<open>NoSuchCategory\<close>). For an
  index outside the list the source goes on with an \<open>undefined\<close> instruction
  (\<open>NoSuchPrompt\<close>); no draw of \<open>Math.random()\<close> gives such an index.
\<close>

datatype gen_error = NoSuchCategory | NoSuchPrompt

definition pick_prompt :: "string \<Rightarrow> rat \<Rightarrow> gen_error + string" where
  "pick_prompt category r =
     (case map_of AD_STRATEGIES category of
        None \<Rightarrow> Inl NoSuchCategory
      | Some prompts \<Rightarrow>
          (case random_index r (length prompts) of
             Fin k \<Rightarrow> (case js_index prompts \<lfloor>k\<rfloor> of None \<Rightarrow> Inl NoSuchPrompt | Some p \<Rightarrow> Inr p)
           | _ \<Rightarrow> Inl NoSuchPrompt))"

text \<open>
  \<open>handleGenerateStrategy\<close> for a category, the draw of \<open>Math.random()\<close> and the
  identifier drawn by \<open>crypto.randomUUID()\<close>: the state after the handler, and the
  variation handed to \<open>processVariation\<close>.
\<close>

definition handleGenerateStrategy ::
  "generator \<Rightarrow> string \<Rightarrow> rat \<Rightarrow> string \<Rightarrow> gen_error + generator \<times> VariationResult" where
  "handleGenerateStrategy g category r uuid =
     (case pick_prompt category r of
        Inl e \<Rightarrow> Inl e
      | Inr randomPrompt \<Rightarrow>
          let newVariation = createVariation uuid category randomPrompt
          in Inr (g\<lparr>variations := newVariation # variations g\<rparr>, newVariation))"

text \<open>
  The \<open>map\<close> over the selected categories in \<open>handleGenerateMix\<close>: the category at
  position \<open>i\<close> gets the draw \<open>rs i\<close> and the identifier \<open>uuids i\<close>.
\<close>

fun mix_variations ::
  "nat \<Rightarrow> string list \<Rightarrow> (nat \<Rightarrow> rat) \<Rightarrow> (nat \<Rightarrow> string) \<Rightarrow> gen_error + VariationResult list" where
  "mix_variations i [] rs uuids = Inr []"
| "mix_variations i (cat # cats) rs uuids =
     (case pick_prompt cat (rs i) of
        Inl e \<Rightarrow> Inl e
      | Inr randomPrompt \<Rightarrow>
          (case mix_variations (Suc i) cats rs uuids of
             Inl e \<Rightarrow> Inl e
           | Inr vs \<Rightarrow> Inr (createVariation (uuids i) cat randomPrompt # vs)))"

text \<open>
  \<open>handleGenerateMix\<close>. \<open>sortedCats\<close> is the array that
  \<open>categories.sort(() => 0.5 - Math.random())\<close> returns: the sort belongs to the
  platform, and with a comparator that ignores its arguments its result is left to the
  engine. The result is the state after the handler and the variations handed to
  \<open>processVariation\<close>.
\<close>

definition handleGenerateMix ::
  "generator \<Rightarrow> string list \<Rightarrow> (nat \<Rightarrow> rat) \<Rightarrow> (nat \<Rightarrow> string)
     \<Rightarrow> gen_error + generator \<times> VariationResult list" where
  "handleGenerateMix g sortedCats rs uuids =
     (case adBaseImage g of
        None \<Rightarrow> Inr (g, [])
      | Some img \<Rightarrow>
          let shuffledCats = js_slice0 sortedCats 5
          in (case mix_variations 0 shuffledCats rs uuids of
                Inl e \<Rightarrow> Inl e
              | Inr newVariations \<Rightarrow>
                  Inr (g\<lparr>variations := newVariations @ variations g\<rparr>, newVariations)))"

text \<open>
  The buttons of the generator panel. \<open>renderAdGenerator\<close> returns the upload screen
  when there is no base image, and the panel with the three kinds of buttons (custom, one
  per category, mix) otherwise; the handlers are those of the same render. A click is
  therefore possible only with a base image, and a category button only for a key of the
  table. The result is the state after the handler and the variations whose requests it
  has started, each with the base image of that render.
\<close>

datatype gen_click =
    ClickCustom string
  | ClickStrategy string rat string
  | ClickMix "string list" "nat \<Rightarrow> rat" "nat \<Rightarrow> string"

definition click_generator ::
  "generator \<Rightarrow> gen_click \<Rightarrow> gen_error + generator \<times> VariationResult list" where
  "click_generator g c =
     (if adBaseImage g = None then Inr (g, [])
      else
        (case c of
           ClickCustom uuid \<Rightarrow>
             (case handleGenerateCustom g uuid of
                (g', None) \<Rightarrow> Inr (g', [])
              | (g', Some v) \<Rightarrow> Inr (g', [v]))
         | ClickStrategy category r uuid \<Rightarrow>
             if category \<in> set categories then
               (case handleGenerateStrategy g category r uuid of
                  Inl e \<Rightarrow> Inl e
                | Inr (g', v) \<Rightarrow> Inr (g', [v]))
             else Inr (g, [])
         | ClickMix sortedCats rs uuids \<Rightarrow> handleGenerateMix g sortedCats rs uuids))"

text \<open>
  Counting over draws. When \<open>Math.random()\<close> returns each value of a finite set \<open>D\<close>
  with the same probability, the sequences of \<open>m\<close> draws are equally likely, and an event
  is as likely as it has sequences. A sort that makes at most \<open>m\<close> calls of the
  comparator is a function \<open>sorter\<close> of the draws of these calls. The choice of the
  categories is uniform when every set of 5 categories is selected by the same number of
  sequences, and the choice of an instruction of a category is uniform when every
  instruction of its list is picked by the same number of draws.
\<close>

definition draw_sequences :: "rat set \<Rightarrow> nat \<Rightarrow> rat list set" where
  "draw_sequences D m = {ds. set ds \<subseteq> D \<and> length ds = m}"

definition selections :: "string set set" where
  "selections = {S. S \<subseteq> set categories \<and> card S = 5}"

definition uniform_categories :: "rat set \<Rightarrow> nat \<Rightarrow> (rat list \<Rightarrow> string list) \<Rightarrow> bool" where
  "uniform_categories D m sorter =
     (\<forall>S\<in>selections. \<forall>T\<in>selections.
        card {ds \<in> draw_sequences D m. set (js_slice0 (sorter ds) 5) = S}
      = card {ds \<in> draw_sequences D m. set (js_slice0 (sorter ds) 5) = T})"

definition prompts_of :: "string \<Rightarrow> string list" where
  "prompts_of category = (case map_of AD_STRATEGIES category of None \<Rightarrow> [] | Some prompts \<Rightarrow> prompts)"

definition uniform_prompts :: "rat set \<Rightarrow> string \<Rightarrow> bool" where
  "uniform_prompts D category =
     (\<forall>p\<in>set (prompts_of category). \<forall>p'\<in>set (prompts_of category).
        card {r \<in> D. pick_prompt category r = Inr p} = card {r \<in> D. pick_prompt category r = Inr p'})"

section \<open>The image service adapter: resize (geminiService)\<close>

datatype TargetRatio = Ratio_1_1 | Ratio_4_5 | Ratio_9_16

fun ratio_text :: "TargetRatio \<Rightarrow> string" where
  "ratio_text Ratio_1_1 = ''1:1''"
| "ratio_text Ratio_4_5 = ''4:5''"
| "ratio_text Ratio_9_16 = ''9:16''"

text \<open>
  The request that \<open>generateResizedImage\<close> hands to \<open>generateContent\<close>: the model,
  the image part (made from the file by \<open>fileToPart\<close>), the text part, and the aspect
  ratio of \<open>config.imageConfig\<close>.
\<close>

record resize_request =
  model :: string
  image_part :: File
  text_part :: string
  aspectRatio :: string

definition generateResizedImage :: "File \<Rightarrow> TargetRatio \<Rightarrow> resize_request" where
  "generateResizedImage img targetRatio =
     (let apiAspectRatio = (if ratio_text targetRatio = ''4:5'' then ''3:4'' else ratio_text targetRatio);
          prompt_text = ''Resize this image to a '' @ ratio_text targetRatio @ '' aspect ratio. '' @ [CHR 10]
            @ ''If the new ratio is wider or taller than the original, seamlessly outpaint and fill the empty space with matching background content. '' @ [CHR 10]
            @ ''Ensure the main subject remains centered and unchanged. '' @ [CHR 10]
            @ ''The result must be high quality and photorealistic.''
      in \<lparr>model = ''gemini-2.5-flash-image'',
          image_part = img,
          text_part = prompt_text,
          aspectRatio = apiAspectRatio\<rparr>)"

section \<open>Concrete inputs\<close>

definition demo_file :: "nat \<Rightarrow> File" where
  "demo_file n = File ''img.png'' ''image/png'' [n]"

definition demo_editor :: editor where
  "demo_editor =
     \<lparr>history = [demo_file 0, demo_file 1, demo_file 2], historyIndex = 1, prompt = ''  '',
      isLoading = False, error = None, editHotspot = None, displayHotspot = None,
      activeTab = Adjust, crop = None, completedCrop = None\<rparr>"

definition demo_batch :: "(string \<times> string \<times> string) list" where
  "demo_batch = [(''u1'', ''Texto'', ''p1''), (''u2'', ''Fondo'', ''p2''), (''u3'', ''CTA'', ''p3''),
                 (''u4'', ''Color'', ''p4''), (''u5'', ''Simple'', ''p5'')]"

definition demo_new :: "nat \<Rightarrow> VariationResult" where
  "demo_new k = (case demo_batch ! k of (i, l, p) \<Rightarrow> createVariation i l p)"

definition demo_events :: "(VariationResult \<times> outcome) list" where
  "demo_events = [(demo_new 3, Rejected None), (demo_new 0, Fulfilled ''data:a''),
                  (demo_new 4, Fulfilled ''data:b''), (demo_new 1, Rejected (Some ''blocked'')),
                  (demo_new 2, Fulfilled ''data:c'')]"

definition demo_generator :: generator where
  "demo_generator = \<lparr>adBaseImage = None, customAdPrompt = ''beach sand'', variations = []\<rparr>"

definition demo_click :: click_event where
  "demo_click =
     \<lparr>clientX = 130, clientY = 100, rect_left = 10, rect_top = 20,
      naturalWidth = 1600, naturalHeight = 1200, clientWidth = 400, clientHeight = 300\<rparr>"

definition demo_click_inexact :: click_event where
  "demo_click_inexact =
     \<lparr>clientX = 60, clientY = 41, rect_left = 10, rect_top = 20,
      naturalWidth = 201, naturalHeight = 750, clientWidth = 100, clientHeight = 140\<rparr>"

definition demo_retouch :: editor where
  "demo_retouch = demo_editor\<lparr>activeTab := Retouch\<rparr>"

definition demo_ready :: editor where
  "demo_ready =
     demo_editor\<lparr>prompt := ''make the shirt blue'', activeTab := Retouch,
                 editHotspot := Some \<lparr>hotspot_x = Fin 480, hotspot_y = Fin 320\<rparr>\<rparr>"

text \<open>The state of the editor when the application starts.\<close>

definition initial_editor :: editor where
  "initial_editor =
     \<lparr>history = [], historyIndex = - 1, prompt = [], isLoading = False, error = None,
      editHotspot = None, displayHotspot = None, activeTab = Retouch, crop = None,
      completedCrop = None\<rparr>"

text \<open>
  A session: image 1 is loaded, a point is clicked and an instruction typed, and the
  edit is started; while it runs, image 2 is loaded.
\<close>

definition session_loaded :: editor where
  "session_loaded = loadFileIntoEditor initial_editor (demo_file 1)"

definition session_ready :: editor where
  "session_ready = (handleImageClick session_loaded demo_click)\<lparr>prompt := ''make the shirt blue''\<rparr>"

definition session_reloaded :: editor where
  "session_reloaded = loadFileIntoEditor (fst (handleGenerate session_ready)) (demo_file 2)"

section \<open>The chat adapter (src/components/ChatBot.tsx)\<close>

text \<open>
  A value as \<open>JSON.parse\<close> returns it. The members of an object are in the order of the
  text; a name that occurs twice has the value of its last occurrence.
\<close>

datatype json =
    JNull
  | JBool bool
  | JNum rat
  | JStr string
  | JArr "json list"
  | JObj "(string \<times> json) list"

text \<open>Truthiness of a value, and of the result of a property read (\<open>None\<close> is \<open>undefined\<close>).\<close>

fun truthy :: "json \<Rightarrow> bool" where
  "truthy JNull = False"
| "truthy (JBool b) = b"
| "truthy (JNum n) = (n \<noteq> 0)"
| "truthy (JStr s) = (s \<noteq> [])"
| "truthy (JArr vs) = True"
| "truthy (JObj kvs) = True"

fun truthy_opt :: "json option \<Rightarrow> bool" where
  "truthy_opt None = False"
| "truthy_opt (Some v) = truthy v"

text \<open>
  Reading one of the properties \<open>output\<close>, \<open>text\<close>, \<open>message\<close>, \<open>response\<close> of a value
  that is not \<open>null\<close>: an object has it when it has a member of that name; strings,
  numbers, booleans and arrays have none of them. On \<open>null\<close> the read throws.
\<close>

fun get_field :: "json \<Rightarrow> string \<Rightarrow> json option" where
  "get_field (JObj kvs) k = map_of (rev kvs) k"
| "get_field v k = None"

text \<open>\<open>a || b\<close> on results of property reads.\<close>

definition js_or :: "json option \<Rightarrow> json option \<Rightarrow> json option" where
  "js_or a b = (if truthy_opt a then a else b)"

text \<open>\<open>v.output || v.text || v.message || v.response\<close>.\<close>

definition message_field :: "json \<Rightarrow> json option" where
  "message_field v =
     js_or (js_or (js_or (get_field v ''output'') (get_field v ''text'')) (get_field v ''message''))
       (get_field v ''response'')"

record response =
  ok :: bool
  status :: nat
  content_type :: "string option"
  body :: string

text \<open>What \<open>fetch\<close> gives: a response, or a rejection when the network fails.\<close>

datatype fetch_result = NetworkError | Response response

fun is_prefix :: "string \<Rightarrow> string \<Rightarrow> bool" where
  "is_prefix [] s = True"
| "is_prefix (p # ps) [] = False"
| "is_prefix (p # ps) (c # cs) = (p = c \<and> is_prefix ps cs)"

text \<open>\<open>s.indexOf(needle) !== -1\<close>.\<close>

fun includes_str :: "string \<Rightarrow> string \<Rightarrow> bool" where
  "includes_str [] needle = (needle = [])"
| "includes_str (c # cs) needle = (is_prefix needle (c # cs) \<or> includes_str cs needle)"

definition starts_bracket :: "string \<Rightarrow> bool" where
  "starts_bracket s = (is_prefix ''['' s \<or> is_prefix ''{'' s)"

text \<open>\<open>contentType && contentType.indexOf("application/json") !== -1\<close>.\<close>

definition announces_json :: "response \<Rightarrow> bool" where
  "announces_json r =
     (case content_type r of
        None \<Rightarrow> False
      | Some ct \<Rightarrow> ct \<noteq> [] \<and> includes_str ct ''application/json'')"

function show_nat :: "nat \<Rightarrow> string" where
  "show_nat n =
     (if n < 10 then [char_of (48 + n)]
      else show_nat (n div 10) @ [char_of (48 + n mod 10)])"
  by pat_completeness auto
termination
  by (relation "measure id") auto

declare show_nat.simps [simp del]

definition msg_server_problem :: string where
  "msg_server_problem = ''Lo siento, hubo un problema al conectar con el servidor.''"

definition msg_connection_error :: "nat \<Rightarrow> string" where
  "msg_connection_error st = ''Error de conexi'' @ [CHR 0xF3] @ ''n: '' @ show_nat st"

text \<open>What is thrown inside the \<open>try\<close> block of \<open>handleSendMessage\<close>.\<close>

datatype chat_error = SyntaxError | TypeError | FetchFailed

text \<open>
  The branch for a body announced as JSON, from the parsed \<open>data\<close> to \<open>botResponseText\<close>.
  \<open>stringify\<close> is \<open>JSON.stringify\<close>. The text is a value and not always a string: a
  message field that holds a number is passed on as that number.
\<close>

definition extract_text :: "(json \<Rightarrow> string) \<Rightarrow> json \<Rightarrow> chat_error + json" where
  "extract_text stringify data =
     (let fallback = (case data of JStr s \<Rightarrow> JStr s | _ \<Rightarrow> JStr (stringify data));
          pick = (\<lambda>extractedText.
                    case extractedText of
                      None \<Rightarrow> fallback
                    | Some t \<Rightarrow> if truthy t then t else fallback)
      in case data of
           JArr (firstItem # rest) \<Rightarrow>
             (case firstItem of
                JNull \<Rightarrow> Inl TypeError
              | JStr s \<Rightarrow>
                  Inr (pick (if truthy_opt (message_field firstItem) then message_field firstItem
                             else Some firstItem))
              | _ \<Rightarrow> Inr (pick (message_field firstItem)))
         | JArr [] \<Rightarrow> Inr (pick (message_field data))
         | JObj kvs \<Rightarrow> Inr (pick (message_field data))
         | _ \<Rightarrow> Inr (pick (Some JNull)))"

text \<open>
  The statements from \<open>fetch\<close> to the clean-up: the text before the second pass, or what
  was thrown. \<open>parse\<close> is \<open>JSON.parse\<close>, which \<open>response.json()\<close> applies to the body;
  \<open>None\<close> is its SyntaxError.
\<close>

definition first_pass ::
  "(string \<Rightarrow> json option) \<Rightarrow> (json \<Rightarrow> string) \<Rightarrow> fetch_result \<Rightarrow> chat_error + json" where
  "first_pass parse stringify fr =
     (case fr of
        NetworkError \<Rightarrow> Inl FetchFailed
      | Response r \<Rightarrow>
          if ok r then
            if announces_json r then
              (case parse (body r) of
                 None \<Rightarrow> Inl SyntaxError
               | Some data \<Rightarrow> extract_text stringify data)
            else Inr (JStr (body r))
          else Inr (JStr (msg_connection_error (status r))))"

text \<open>
  The clean-up of texts that look like JSON. A failure of this parse, and the TypeError
  of reading \<open>output\<close> from \<open>null\<close>, are caught and ignored.
\<close>

definition cleanup :: "(string \<Rightarrow> json option) \<Rightarrow> json \<Rightarrow> json" where
  "cleanup parse botResponseText =
     (case botResponseText of
        JStr s \<Rightarrow>
          if starts_bracket s then
            (case parse s of
               None \<Rightarrow> botResponseText
             | Some parsed \<Rightarrow>
                 let first_output =
                       (case parsed of
                          JArr (p0 # rest) \<Rightarrow> (if p0 = JNull then None else get_field p0 ''output'')
                        | _ \<Rightarrow> None)
                 in if truthy_opt first_output then
                      (case first_output of Some v \<Rightarrow> v | None \<Rightarrow> botResponseText)
                    else if parsed = JNull then botResponseText
                    else (case get_field parsed ''output'' of
                            Some v \<Rightarrow> if truthy v then v else botResponseText
                          | None \<Rightarrow> botResponseText))
          else botResponseText
      | _ \<Rightarrow> botResponseText)"

text \<open>
  The text of the bot message that \<open>handleSendMessage\<close> appends for one reply of the
  webhook: the cleaned text, or the fixed message of the outer \<open>catch\<close>.
\<close>

definition bot_message_text ::
  "(string \<Rightarrow> json option) \<Rightarrow> (json \<Rightarrow> string) \<Rightarrow> fetch_result \<Rightarrow> json" where
  "bot_message_text parse stringify fr =
     (case first_pass parse stringify fr of
        Inl err \<Rightarrow> JStr msg_server_problem
      | Inr botResponseText \<Rightarrow> cleanup parse botResponseText)"

subsection \<open>A reader and a writer of JSON text\<close>

text \<open>
  \<open>JSON.parse\<close> and \<open>JSON.stringify\<close> belong to the platform; the handler above takes
  them as parameters. The concrete inputs below use this reader and writer of the part
  of JSON that has whole numbers without exponent and no \<open>\u\<close> escapes in strings; the
  reader rejects every text outside that part. The fuel bounds the number of values,
  elements and members that are read; a text needs less of it than it has characters.
\<close>

definition is_json_ws :: "char \<Rightarrow> bool" where
  "is_json_ws c = (of_char c \<in> {32, 9, 10, 13 :: nat})"

definition skip_ws :: "string \<Rightarrow> string" where
  "skip_ws s = dropWhile is_json_ws s"

definition is_digit :: "char \<Rightarrow> bool" where
  "is_digit c = (48 \<le> (of_char c :: nat) \<and> (of_char c :: nat) \<le> 57)"

definition unescape :: "char \<Rightarrow> char option" where
  "unescape e =
     (if e = CHR 0x22 then Some (CHR 0x22)
      else if e = CHR 0x5C then Some (CHR 0x5C)
      else if e = CHR ''/'' then Some (CHR ''/'')
      else if e = CHR ''b'' then Some (CHR 0x08)
      else if e = CHR ''f'' then Some (CHR 0x0C)
      else if e = CHR ''n'' then Some (CHR 0x0A)
      else if e = CHR ''r'' then Some (CHR 0x0D)
      else if e = CHR ''t'' then Some (CHR 0x09)
      else None)"

text \<open>The characters of a string after its opening quote, and the text after its closing quote.\<close>

fun read_string :: "string \<Rightarrow> (string \<times> string) option" where
  "read_string [] = None"
| "read_string [c] = (if c = CHR 0x22 then Some ([], []) else None)"
| "read_string (c # e # r) =
     (if c = CHR 0x22 then Some ([], e # r)
      else if c = CHR 0x5C then
        (case unescape e of
           None \<Rightarrow> None
         | Some d \<Rightarrow> (case read_string r of None \<Rightarrow> None | Some (t, r') \<Rightarrow> Some (d # t, r')))
      else if (of_char c :: nat) < 32 then None
      else (case read_string (e # r) of None \<Rightarrow> None | Some (t, r') \<Rightarrow> Some (c # t, r')))"

definition digits_value :: "string \<Rightarrow> int" where
  "digits_value ds = foldl (\<lambda>acc d. 10 * acc + (int (of_char d) - 48)) 0 ds"

definition read_digits :: "string \<Rightarrow> (int \<times> string) option" where
  "read_digits s =
     (let ds = takeWhile is_digit s; r = dropWhile is_digit s
      in if ds = [] \<or> (length ds > 1 \<and> hd ds = CHR ''0'') then None
         else if r \<noteq> [] \<and> (hd r = CHR ''.'' \<or> hd r = CHR ''e'' \<or> hd r = CHR ''E'') then None
         else Some (digits_value ds, r))"

definition read_atom :: "string \<Rightarrow> (json \<times> string) option" where
  "read_atom s =
     (if is_prefix ''null'' s then Some (JNull, drop 4 s)
      else if is_prefix ''true'' s then Some (JBool True, drop 4 s)
      else if is_prefix ''false'' s then Some (JBool False, drop 5 s)
      else if is_prefix ''-'' s then
        (case read_digits (drop 1 s) of None \<Rightarrow> None | Some (n, r) \<Rightarrow> Some (JNum (of_int (- n)), r))
      else (case read_digits s of None \<Rightarrow> None | Some (n, r) \<Rightarrow> Some (JNum (of_int n), r)))"

fun read_value :: "nat \<Rightarrow> string \<Rightarrow> (json \<times> string) option"
  and read_elements :: "nat \<Rightarrow> string \<Rightarrow> (json list \<times> string) option"
  and read_members :: "nat \<Rightarrow> string \<Rightarrow> ((string \<times> json) list \<times> string) option" where
  "read_value 0 s = None"
| "read_value (Suc n) s =
     (case skip_ws s of
        [] \<Rightarrow> None
      | c # r \<Rightarrow>
          if c = CHR 0x22 then
            (case read_string r of None \<Rightarrow> None | Some (t, r') \<Rightarrow> Some (JStr t, r'))
          else if c = CHR ''['' then
            (case skip_ws r of
               [] \<Rightarrow> None
             | c' # r' \<Rightarrow>
                 if c' = CHR '']'' then Some (JArr [], r')
                 else (case read_elements n (c' # r') of
                         None \<Rightarrow> None
                       | Some (vs, r'') \<Rightarrow> Some (JArr vs, r'')))
          else if c = CHR ''{'' then
            (case skip_ws r of
               [] \<Rightarrow> None
             | c' # r' \<Rightarrow>
                 if c' = CHR ''}'' then Some (JObj [], r')
                 else (case read_members n (c' # r') of
                         None \<Rightarrow> None
                       | Some (kvs, r'') \<Rightarrow> Some (JObj kvs, r'')))
          else read_atom (c # r))"
| "read_elements 0 s = None"
| "read_elements (Suc n) s =
     (case read_value n s of
        None \<Rightarrow> None
      | Some (v, r) \<Rightarrow>
          (case skip_ws r of
             [] \<Rightarrow> None
           | c # r' \<Rightarrow>
               if c = CHR '','' then
                 (case read_elements n r' of None \<Rightarrow> None | Some (vs, r'') \<Rightarrow> Some (v # vs, r''))
               else if c = CHR '']'' then Some ([v], r')
               else None))"
| "read_members 0 s = None"
| "read_members (Suc n) s =
     (case skip_ws s of
        [] \<Rightarrow> None
      | q # r \<Rightarrow>
          if q \<noteq> CHR 0x22 then None
          else
            (case read_string r of
               None \<Rightarrow> None
             | Some (k, r1) \<Rightarrow>
                 (case skip_ws r1 of
                    [] \<Rightarrow> None
                  | c # r2 \<Rightarrow>
                      if c \<noteq> CHR '':'' then None
                      else
                        (case read_value n r2 of
                           None \<Rightarrow> None
                         | Some (v, r3) \<Rightarrow>
                             (case skip_ws r3 of
                                [] \<Rightarrow> None
                              | d # r4 \<Rightarrow>
                                  if d = CHR '','' then
                                    (case read_members n r4 of
                                       None \<Rightarrow> None
                                     | Some (kvs, r5) \<Rightarrow> Some ((k, v) # kvs, r5))
                                  else if d = CHR ''}'' then Some ([(k, v)], r4)
                                  else None)))))"

definition json_parse :: "string \<Rightarrow> json option" where
  "json_parse s =
     (case read_value (Suc (length s)) s of
        None \<Rightarrow> None
      | Some (v, r) \<Rightarrow> if skip_ws r = [] then Some v else None)"

definition show_int :: "int \<Rightarrow> string" where
  "show_int i = (if i < 0 then ''-'' @ show_nat (nat (- i)) else show_nat (nat i))"

definition escape_char :: "char \<Rightarrow> string" where
  "escape_char c =
     (if c = CHR 0x22 then [CHR 0x5C, CHR 0x22]
      else if c = CHR 0x5C then [CHR 0x5C, CHR 0x5C]
      else if c = CHR 0x08 then [CHR 0x5C, CHR ''b'']
      else if c = CHR 0x0C then [CHR 0x5C, CHR ''f'']
      else if c = CHR 0x0A then [CHR 0x5C, CHR ''n'']
      else if c = CHR 0x0D then [CHR 0x5C, CHR ''r'']
      else if c = CHR 0x09 then [CHR 0x5C, CHR ''t'']
      else [c])"

definition quote :: "string \<Rightarrow> string" where
  "quote s = [CHR 0x22] @ concat (map escape_char s) @ [CHR 0x22]"

fun join_comma :: "string list \<Rightarrow> string" where
  "join_comma [] = []"
| "join_comma [s] = s"
| "join_comma (s # t # ts) = s @ '','' @ join_comma (t # ts)"

fun json_stringify :: "json \<Rightarrow> string" where
  "json_stringify JNull = ''null''"
| "json_stringify (JBool b) = (if b then ''true'' else ''false'')"
| "json_stringify (JNum n) = show_int \<lfloor>n\<rfloor>"
| "json_stringify (JStr s) = quote s"
| "json_stringify (JArr vs) = ''['' @ join_comma (map json_stringify vs) @ '']''"
| "json_stringify (JObj kvs) =
     ''{'' @ join_comma (map (\<lambda>kv. quote (fst kv) @ '':'' @ json_stringify (snd kv)) kvs) @ ''}''"

definition body_array :: string where
  \<open>body_array = ''[{"output":"hello"}]''\<close>

definition body_plain :: string where
  "body_plain = ''plain text''"

definition body_object :: string where
  \<open>body_object = ''{"output":"nested"}''\<close>

definition body_broken :: string where
  "body_broken = ''{oops''"

definition demo_response :: "string \<Rightarrow> string \<Rightarrow> response" where
  "demo_response ct b = \<lparr>ok = True, status = 200, content_type = Some ct, body = b\<rparr>"

section \<open>The history manager: proofs\<close>

text \<open>Binary64 arithmetic at the numbers of the concrete inputs.\<close>

lemma demo_scale: "jsdiv 1600 400 = Fin 4" "jsdiv 1200 300 = Fin 4"
  by code_simp+

lemma demo_offsets: "jssub 130 10 = Fin 120" "jssub 100 20 = Fin 80"
  by code_simp+

lemma demo_products: "to_double 480 = Fin 480" "to_double 320 = Fin 320"
  by code_simp+

lemma inexact_x: "jsmul (jssub 60 10) (jsdiv 201 100) = Fin (7072058789855231 / 2 ^ 46)"
  by code_simp

lemma inexact_y: "jsmul (jssub 41 20) (jsdiv 750 140) = Fin (7916483719987199 / 2 ^ 46)"
  by code_simp

lemma js_slice0_take:
  "0 \<le> c \<Longrightarrow> c \<le> int (length xs) - 1 \<Longrightarrow> js_slice0 xs (c + 1) = take (nat c + 1) xs"
  by (simp add: js_slice0_def Let_def nat_add_distrib)

lemma commit_keeps_range:
  "cursor_in_range st \<Longrightarrow> cursor_in_range (addImageToHistory st f)"
  by (simp add: cursor_in_range_def addImageToHistory_def Let_def)

lemma commit_keeps_first:
  assumes "cursor_in_range st"
  shows "js_index (history (addImageToHistory st f)) 0 = js_index (history st) 0"
proof -
  from assms have c: "0 \<le> historyIndex st" "historyIndex st \<le> int (length (history st)) - 1"
    by (simp_all add: cursor_in_range_def)
  then have ne: "history st \<noteq> []" by auto
  have "history (addImageToHistory st f) = take (nat (historyIndex st) + 1) (history st) @ [f]"
    using js_slice0_take [OF c] by (simp add: addImageToHistory_def Let_def)
  with ne show ?thesis
    by (cases "history st") (simp_all add: js_index_def)
qed

lemma undo_keeps:
  "cursor_in_range st \<Longrightarrow> cursor_in_range (handleUndo st)"
  "history (handleUndo st) = history st"
  by (auto simp add: cursor_in_range_def handleUndo_def canUndo_def)

lemma redo_keeps:
  "cursor_in_range st \<Longrightarrow> cursor_in_range (handleRedo st)"
  "history (handleRedo st) = history st"
  by (auto simp add: cursor_in_range_def handleRedo_def canRedo_def)

lemma load_in_range: "cursor_in_range (loadFileIntoEditor st f)"
  by (simp add: cursor_in_range_def loadFileIntoEditor_def)

lemma commit_from_range:
  "cursor_in_range st_call \<Longrightarrow> cursor_in_range (addImageToHistory_from st_call st_now f)"
  using commit_keeps_range [of st_call f]
  by (simp add: cursor_in_range_def addImageToHistory_from_def)

lemma commit_from_first:
  "cursor_in_range st_call \<Longrightarrow>
   js_index (history (addImageToHistory_from st_call st_now f)) 0 = js_index (history st_call) 0"
  using commit_keeps_first [of st_call f]
  by (simp add: addImageToHistory_from_def)

lemma hist_step_nonempty: "rs \<noteq> [] \<Longrightarrow> hist_step rs a \<noteq> []"
  by (cases a) simp_all

lemma hist_step_range:
  assumes "rs \<noteq> []" and "\<forall>r\<in>set rs. cursor_in_range r"
  shows "\<forall>r\<in>set (hist_step rs a). cursor_in_range r"
  using assms
  by (cases a) (auto simp add: load_in_range commit_from_range undo_keeps redo_keeps)

lemma hist_run_range_aux:
  "rs \<noteq> [] \<Longrightarrow> \<forall>r\<in>set rs. cursor_in_range r \<Longrightarrow>
   \<forall>r\<in>set (foldl hist_step rs ops). cursor_in_range r"
proof (induction ops arbitrary: rs)
  case Nil
  then show ?case by simp
next
  case (Cons a ops)
  from Cons.IH [OF hist_step_nonempty [OF Cons.prems(1)] hist_step_range [OF Cons.prems]]
  show ?case by simp
qed


lemma hist_step_first:
  assumes "rs \<noteq> []" and "\<forall>r\<in>set rs. cursor_in_range r \<and> js_index (history r) 0 = Some x"
    and "\<not> is_load a"
  shows "\<forall>r\<in>set (hist_step rs a). cursor_in_range r \<and> js_index (history r) 0 = Some x"
  using assms
  by (cases a) (auto simp add: commit_from_range commit_from_first undo_keeps redo_keeps)

lemma hist_run_first_aux:
  "rs \<noteq> [] \<Longrightarrow> \<forall>r\<in>set rs. cursor_in_range r \<and> js_index (history r) 0 = Some x \<Longrightarrow>
   \<forall>a\<in>set ops. \<not> is_load a \<Longrightarrow>
   \<forall>r\<in>set (foldl hist_step rs ops). cursor_in_range r \<and> js_index (history r) 0 = Some x"
proof (induction ops arbitrary: rs)
  case Nil
  then show ?case by simp
next
  case (Cons a ops)
  from Cons.prems(3) have na: "\<not> is_load a" and rest: "\<forall>a\<in>set ops. \<not> is_load a" by simp_all
  from Cons.IH [OF hist_step_nonempty [OF Cons.prems(1)] hist_step_first [OF Cons.prems(1,2) na] rest]
  show ?case by simp
qed

text \<open>
  What holds of every session: the cursor of every render is within the history whatever
  the order of loads, undos, redos and completions of edits, late ones included; and as
  long as no second load occurs, the first image of every render is the loaded one.
\<close>

lemma session_cursor_in_range:
  "\<forall>r\<in>set (hist_run (loadFileIntoEditor st0 f) ops). cursor_in_range r"
  unfolding hist_run_def
  by (rule hist_run_range_aux) (simp_all add: load_in_range)

lemma fresh_commits_keep_original:
  assumes "\<forall>a\<in>set ops. \<not> is_load a"
  shows "\<forall>r\<in>set (hist_run (loadFileIntoEditor st0 f) ops).
           cursor_in_range r \<and> js_index (history r) 0 = Some f"
  unfolding hist_run_def
  by (rule hist_run_first_aux) (use assms in \<open>simp_all add: cursor_in_range_def loadFileIntoEditor_def js_index_def\<close>)

text \<open>
  Claim C1 against the code: the first entry of the history does not stay the loaded
  image. Image 1 is loaded and an edit of it is started; while the request runs, image 2
  is loaded (the controls are not disabled), so the history is image 2 alone; then the
  edit completes, and its \<open>addImageToHistory\<close>, the callback of the render in which the
  edit started, writes the history of that render plus the result. The first entry, which
  the code calls the original image, is image 1 again, and image 2 is gone.
\<close>

theorem stale_commit_after_load:
  "snd (handleGenerate session_ready)
     = Some \<lparr>req_image = demo_file 1, req_prompt = ''make the shirt blue'',
             req_hotspot = \<lparr>hotspot_x = Fin 480, hotspot_y = Fin 320\<rparr>\<rparr> \<and>
   history session_reloaded = [demo_file 2] \<and>
   originalImage session_reloaded = Some (demo_file 2) \<and>
   history (handleGenerate_settle session_ready session_reloaded (Inr (demo_file 3)))
     = [demo_file 1, demo_file 3] \<and>
   historyIndex (handleGenerate_settle session_ready session_reloaded (Inr (demo_file 3))) = 1 \<and>
   originalImage (handleGenerate_settle session_ready session_reloaded (Inr (demo_file 3)))
     = Some (demo_file 1) \<and>
   demo_file 1 \<noteq> demo_file 2 \<and>
   map history (hist_run initial_editor [Load (demo_file 1), Load (demo_file 2), Commit 1 (demo_file 3)])
     = [[], [demo_file 1], [demo_file 2], [demo_file 1, demo_file 3]]"
proof -
  have ready: "session_ready =
      \<lparr>history = [demo_file 1], historyIndex = 0, prompt = ''make the shirt blue'',
       isLoading = False, error = None,
       editHotspot = Some \<lparr>hotspot_x = Fin 480, hotspot_y = Fin 320\<rparr>,
       displayHotspot = Some \<lparr>hotspot_x = Fin 120, hotspot_y = Fin 80\<rparr>,
       activeTab = Retouch, crop = None, completedCrop = None\<rparr>"
    by (simp add: session_ready_def session_loaded_def loadFileIntoEditor_def initial_editor_def
        handleImageClick_def Let_def demo_click_def demo_scale demo_offsets demo_products floor_eq_iff)
  have req: "snd (handleGenerate session_ready)
     = Some \<lparr>req_image = demo_file 1, req_prompt = ''make the shirt blue'',
             req_hotspot = \<lparr>hotspot_x = Fin 480, hotspot_y = Fin 320\<rparr>\<rparr>"
    by (simp add: ready handleGenerate_def currentImage_def js_index_def trim_def is_js_space_def)
  have reloaded: "history session_reloaded = [demo_file 2]" "historyIndex session_reloaded = 0"
    by (simp_all add: session_reloaded_def loadFileIntoEditor_def)
  have settle: "history (handleGenerate_settle session_ready session_reloaded (Inr (demo_file 3)))
                  = [demo_file 1, demo_file 3]"
    "historyIndex (handleGenerate_settle session_ready session_reloaded (Inr (demo_file 3))) = 1"
    by (simp_all add: handleGenerate_settle_def addImageToHistory_from_def addImageToHistory_def
        js_slice0_def Let_def ready)
  have run: "map history (hist_run initial_editor [Load (demo_file 1), Load (demo_file 2), Commit 1 (demo_file 3)])
     = [[], [demo_file 1], [demo_file 2], [demo_file 1, demo_file 3]]"
    by (simp add: hist_run_def initial_editor_def loadFileIntoEditor_def currentImage_def js_index_def
        addImageToHistory_from_def addImageToHistory_def js_slice0_def Let_def)
  from req reloaded settle run show ?thesis
    by (simp add: originalImage_def js_index_def demo_file_def)
qed



section \<open>The variation orchestrator: proofs\<close>

lemma update_miss:
  "i \<notin> id_v ` set prev \<Longrightarrow> map (\<lambda>v. if id_v v = i then f v else v) prev = prev"
  by (induction prev) auto

lemma settle_record_fields:
  "id_v (settle_record oc v) = id_v v"
  "label (settle_record oc v) = label v"
  "prompt_v (settle_record oc v) = prompt_v v"
  "\<not> loading (settle_record oc v)"
  by (cases oc; simp)+

lemma settle_in_flight:
  "in_flight v \<Longrightarrow> resolved (settle_record oc v) = is_fulfilled oc"
  "in_flight v \<Longrightarrow> failed (settle_record oc v) = (\<not> is_fulfilled oc)"
  by (cases oc; simp add: in_flight_def resolved_def failed_def)+

lemma run_closed_form:
  "distinct (map id_v (map fst evs)) \<Longrightarrow>
   run_completions (Some img) vs evs = map (settle_all evs) vs"
proof (induction evs arbitrary: vs)
  case Nil
  then show ?case by (simp add: run_completions_def settle_all_def outcome_of_def)
next
  case (Cons e evs)
  obtain v oc where e: "e = (v, oc)" by (cases e)
  from Cons.prems e have fresh: "id_v v \<notin> id_v ` fst ` set evs" and d: "distinct (map id_v (map fst evs))"
    by (simp_all add: image_image)
  have none: "outcome_of evs (id_v v) = None"
    using fresh by (force simp add: outcome_of_def map_of_eq_None_iff)
  have step: "settle_all evs (if id_v w = id_v v then settle_record oc w else w) = settle_all (e # evs) w" for w
    using none by (simp add: settle_all_def outcome_of_def e settle_record_fields)
  have "run_completions (Some img) vs (e # evs)
        = run_completions (Some img) (processVariation (Some img) v oc vs) evs"
    by (simp add: run_completions_def e)
  also have "\<dots> = map (settle_all evs) (processVariation (Some img) v oc vs)"
    by (rule Cons.IH [OF d])
  also have "\<dots> = map (settle_all (e # evs)) vs"
    by (simp add: processVariation_def step)
  finally show ?case .
qed

lemma length_filter_mset_cong:
  "mset xs = mset ys \<Longrightarrow> length (filter P xs) = length (filter P ys)"
proof -
  assume "mset xs = mset ys"
  then have "size (filter_mset P (mset xs)) = size (filter_mset P (mset ys))" by simp
  then show ?thesis by (simp only: mset_filter [symmetric] size_mset)
qed


lemma outcome_of_event:
  assumes "distinct (map id_v (map fst evs))" and "(v, oc) \<in> set evs"
  shows "outcome_of evs (id_v v) = Some oc"
proof -
  have "distinct (map fst (map (\<lambda>(v, oc). (id_v v, oc)) evs))"
    using assms(1) by (simp add: comp_def case_prod_unfold)
  moreover have "(id_v v, oc) \<in> set (map (\<lambda>(v, oc). (id_v v, oc)) evs)"
    using assms(2) by force
  ultimately show ?thesis
    unfolding outcome_of_def by (rule map_of_is_SomeI)
qed

lemma outcome_of_absent:
  "i \<notin> id_v ` fst ` set evs \<Longrightarrow> outcome_of evs i = None"
  by (force simp add: outcome_of_def map_of_eq_None_iff)

lemma outcome_of_permuted:
  assumes "distinct (map id_v (map fst evs))" and "mset evs' = mset evs"
  shows "outcome_of evs' = outcome_of evs"
proof -
  let ?g = "\<lambda>(v, oc). (id_v v, oc)"
  have m: "mset (map id_v (map fst evs')) = mset (map id_v (map fst evs))"
    using assms(2) by (metis mset_map)
  then have d': "distinct (map id_v (map fst evs'))"
    using assms(1) by (metis mset_eq_imp_distinct_iff)
  have s: "set (map ?g evs') = set (map ?g evs)"
    using assms(2) by (metis mset_eq_setD set_map)
  have "distinct (map fst (map ?g evs'))" "distinct (map fst (map ?g evs))"
    using d' assms(1) by (simp_all add: comp_def case_prod_unfold)
  then show ?thesis
    unfolding outcome_of_def using s by (simp add: map_of_inject_set)
qed

text \<open>
  Claim C4, as amended. Variations are created in flight. When a batch of them is put in
  front of a list whose identifiers differ from theirs and from each other, and a base
  image was set when their requests started, then after each request has ended once, in
  any order, the old entries are as they were, every new record has left the loading
  state, the resolved ones are as many as the fulfilled requests and the failed ones as
  many as the rejected requests, and the final list does not depend on the order of the
  completions. For five requests of which three are fulfilled this gives three resolved
  and two failed records.
\<close>

theorem variation_batch_lifecycle:
  assumes news: "news = map (\<lambda>(i, l, p). createVariation i l p) specs"
      and ids: "distinct (map id_v (news @ prev))"
      and once: "mset (map fst evs) = mset news"
      and perm: "mset evs' = mset evs"
  shows "list_all in_flight news \<and>
         take (length news) (run_completions (Some img) (news @ prev) evs) = map (settle_all evs) news \<and>
         drop (length news) (run_completions (Some img) (news @ prev) evs) = prev \<and>
         list_all (\<lambda>v. \<not> loading v) (map (settle_all evs) news) \<and>
         length (filter resolved (map (settle_all evs) news)) = length (filter is_fulfilled (map snd evs)) \<and>
         length (filter failed (map (settle_all evs) news)) = length (filter (\<lambda>oc. \<not> is_fulfilled oc) (map snd evs)) \<and>
         run_completions (Some img) (news @ prev) evs' = run_completions (Some img) (news @ prev) evs"
proof -
  have inflight: "in_flight v" if "v \<in> set news" for v
    using that news by (auto simp add: createVariation_def in_flight_def)
  have sets: "fst ` set evs = set news"
    using once by (metis mset_eq_setD set_map)
  have d: "distinct (map id_v (map fst evs))"
  proof -
    have "mset (map id_v (map fst evs)) = mset (map id_v news)"
      using once by (metis mset_map)
    moreover have "distinct (map id_v news)" using ids by simp
    ultimately show ?thesis by (metis mset_eq_imp_distinct_iff)
  qed
  have d': "distinct (map id_v (map fst evs'))"
  proof -
    have "mset (map id_v (map fst evs')) = mset (map id_v (map fst evs))"
      using perm by (metis mset_map)
    with d show ?thesis by (metis mset_eq_imp_distinct_iff)
  qed
  have ev: "settle_all evs v = settle_record oc v" if "(v, oc) \<in> set evs" for v oc
    using outcome_of_event [OF d that] by (simp add: settle_all_def)
  have old: "settle_all evs w = w" if "w \<in> set prev" for w
  proof -
    from that ids have "id_v w \<notin> id_v ` set news" by auto
    then have "outcome_of evs (id_v w) = None"
      using sets by (intro outcome_of_absent) simp
    then show ?thesis by (simp add: settle_all_def)
  qed
  have final: "run_completions (Some img) (news @ prev) evs = map (settle_all evs) news @ prev"
    using run_closed_form [OF d, of img "news @ prev"] old by (simp add: map_idI)
  have c1: "list_all in_flight news"
    using inflight by (simp add: list_all_iff)
  have settled: "\<not> loading (settle_all evs v)" if "v \<in> set news" for v
  proof -
    from that sets obtain oc where "(v, oc) \<in> set evs" by force
    then show ?thesis using ev by (simp add: settle_record_fields)
  qed
  have c4: "list_all (\<lambda>v. \<not> loading v) (map (settle_all evs) news)"
    using settled by (simp add: list_all_iff)
  have count: "length (filter P (map (settle_all evs) news)) = length (filter Q (map snd evs))"
    if pq: "\<And>v oc. in_flight v \<Longrightarrow> P (settle_record oc v) = Q oc" for P Q
  proof -
    have "length (filter P (map (settle_all evs) news)) = length (filter (P \<circ> settle_all evs) news)"
      by (simp add: filter_map)
    also have "\<dots> = length (filter (P \<circ> settle_all evs) (map fst evs))"
      using once by (intro length_filter_mset_cong) simp
    also have "\<dots> = length (filter (\<lambda>e. P (settle_all evs (fst e))) evs)"
      by (simp add: filter_map comp_def)
    also have "filter (\<lambda>e. P (settle_all evs (fst e))) evs = filter (\<lambda>e. Q (snd e)) evs"
    proof (rule filter_cong [OF refl])
      fix e assume e: "e \<in> set evs"
      obtain v oc where eq: "e = (v, oc)" by (cases e)
      with e sets have "v \<in> set news" by force
      with e eq ev pq inflight show "P (settle_all evs (fst e)) = Q (snd e)" by simp
    qed
    also have "length (filter (\<lambda>e. Q (snd e)) evs) = length (filter Q (map snd evs))"
      by (simp add: filter_map comp_def)
    finally show ?thesis .
  qed
  have c5: "length (filter resolved (map (settle_all evs) news)) = length (filter is_fulfilled (map snd evs))"
    by (rule count) (rule settle_in_flight)
  have c6: "length (filter failed (map (settle_all evs) news))
            = length (filter (\<lambda>oc. \<not> is_fulfilled oc) (map snd evs))"
    by (rule count) (rule settle_in_flight)
  have c7: "run_completions (Some img) (news @ prev) evs' = run_completions (Some img) (news @ prev) evs"
    using run_closed_form [OF d', of img "news @ prev"] run_closed_form [OF d, of img "news @ prev"]
      outcome_of_permuted [OF d perm]
    by (simp add: settle_all_def [abs_def])
  from final c1 c4 c5 c6 c7 show ?thesis by simp
qed


theorem variation_batch_lifecycle_witness:
  "length (filter resolved (run_completions (Some (demo_file 0))
       (map (\<lambda>(i, l, p). createVariation i l p) demo_batch) demo_events)) = 3 \<and>
   length (filter failed (run_completions (Some (demo_file 0))
       (map (\<lambda>(i, l, p). createVariation i l p) demo_batch) demo_events)) = 2 \<and>
   run_completions (Some (demo_file 0)) (map (\<lambda>(i, l, p). createVariation i l p) demo_batch) (rev demo_events)
     = run_completions (Some (demo_file 0)) (map (\<lambda>(i, l, p). createVariation i l p) demo_batch) demo_events"
proof -
  let ?news = "map (\<lambda>(i, l, p). createVariation i l p) demo_batch"
  have a: "?news = map (\<lambda>(i, l, p). createVariation i l p) demo_batch" by simp
  have b: "distinct (map id_v (?news @ []))"
    by (simp add: demo_batch_def createVariation_def)
  have c: "mset (map fst demo_events) = mset ?news"
    by (simp add: demo_events_def demo_new_def demo_batch_def)
  have d: "mset (rev demo_events) = mset demo_events" by simp
  have e: "length (filter is_fulfilled (map snd demo_events)) = 3"
          "length (filter (\<lambda>oc. \<not> is_fulfilled oc) (map snd demo_events)) = 2"
    by (simp_all add: demo_events_def)
  have f: "length ?news = 5" by (simp add: demo_batch_def)
  from variation_batch_lifecycle [OF a b c d, of "demo_file 0"] e
  have t: "take (length ?news) (run_completions (Some (demo_file 0)) ?news demo_events) = map (settle_all demo_events) ?news"
    and dr: "drop (length ?news) (run_completions (Some (demo_file 0)) ?news demo_events) = []"
    and r: "length (filter resolved (map (settle_all demo_events) ?news)) = 3"
    and fl: "length (filter failed (map (settle_all demo_events) ?news)) = 2"
    and p: "run_completions (Some (demo_file 0)) ?news (rev demo_events) = run_completions (Some (demo_file 0)) ?news demo_events"
    by simp_all
  from t dr have "run_completions (Some (demo_file 0)) ?news demo_events = map (settle_all demo_events) ?news"
    by (metis append_Nil2 append_take_drop_id)
  with r fl p show ?thesis by simp
qed

text \<open>
  Claim C3. When the identifier of a variation is not in the current list, the update of
  its completion, a success as well as a failure, with or without a base image, returns
  the list as it was: no entry is added and none is changed. The update is a total
  function, so it does not throw.
\<close>

theorem stale_completion_noop:
  assumes "id_v variation \<notin> id_v ` set prev"
  shows "processVariation base variation (Fulfilled u) prev = prev \<and>
         processVariation base variation (Rejected m) prev = prev"
  using assms by (cases base) (simp_all add: processVariation_def update_miss)

theorem stale_completion_noop_witness:
  "id_v (demo_new 0) \<notin> id_v ` set [demo_new 1, demo_new 2] \<and>
   processVariation (Some (demo_file 0)) (demo_new 0) (Fulfilled ''data:a'') [demo_new 1, demo_new 2]
     = [demo_new 1, demo_new 2] \<and>
   processVariation (Some (demo_file 0)) (demo_new 0) (Rejected None) [demo_new 1, demo_new 2]
     = [demo_new 1, demo_new 2]"
proof -
  have h: "id_v (demo_new 0) \<notin> id_v ` set [demo_new 1, demo_new 2]"
    by (simp add: demo_new_def demo_batch_def createVariation_def)
  from stale_completion_noop [OF h] h show ?thesis by blast
qed

text \<open>
  Claim C4 as stated fails without a base image: \<open>handleGenerateCustom\<close> puts the new
  record in the list, \<open>processVariation\<close> returns at its guard, and the record is
  neither resolved nor failed whatever the service would have answered.
\<close>

theorem variation_stuck_counterexample:
  "snd (handleGenerateCustom demo_generator ''u1'') = Some (createVariation ''u1'' ''Personalizado'' ''beach sand'') \<and>
   variations (fst (handleGenerateCustom demo_generator ''u1'')) = [createVariation ''u1'' ''Personalizado'' ''beach sand''] \<and>
   processVariation (adBaseImage demo_generator) (createVariation ''u1'' ''Personalizado'' ''beach sand'')
       (Fulfilled ''data:image/png;base64,AAAA'')
       (variations (fst (handleGenerateCustom demo_generator ''u1'')))
     = [createVariation ''u1'' ''Personalizado'' ''beach sand''] \<and>
   \<not> resolved (createVariation ''u1'' ''Personalizado'' ''beach sand'') \<and>
   \<not> failed (createVariation ''u1'' ''Personalizado'' ''beach sand'')"
  by (simp add: handleGenerateCustom_def demo_generator_def trim_def is_js_space_def Let_def
      processVariation_def createVariation_def resolved_def failed_def)

lemma run_other_ids:
  "\<forall>e\<in>set evs. id_v (fst e) \<noteq> id_v w \<Longrightarrow>
   run_completions b (w # vs) evs = w # run_completions b vs evs"
proof (induction evs arbitrary: vs)
  case Nil
  then show ?case by (simp add: run_completions_def)
next
  case (Cons e evs)
  obtain v oc where e: "e = (v, oc)" by (cases e)
  with Cons.prems have ne: "id_v w \<noteq> id_v v" by auto
  have "processVariation b v oc (w # vs) = w # processVariation b v oc vs"
    using ne by (cases b) (simp_all add: processVariation_def)
  then have "run_completions b (w # vs) (e # evs) = run_completions b (w # processVariation b v oc vs) evs"
    by (simp add: run_completions_def e)
  also have "\<dots> = w # run_completions b (processVariation b v oc vs) evs"
    using Cons.IH Cons.prems by simp
  finally show ?case by (simp add: run_completions_def e)
qed

text \<open>
  Claim C10. Without a base image \<open>processVariation\<close> returns the list unchanged; the
  variation that \<open>handleGenerateCustom\<close> has just created is then in flight, stays
  so after its own call, and stays the same first record through every later completion
  of a variation with another identifier. With a base image the update keeps the length of
  the list, leaves every record with another identifier as it is, and gives the matching
  record the same identifier, label and prompt with the loading flag off.
\<close>

theorem process_without_base_image:
  "processVariation None variation oc vs = vs \<and>
   (adBaseImage g = None \<and> trim (customAdPrompt g) \<noteq> [] \<and> (\<forall>e\<in>set evs. id_v (fst e) \<noteq> uuid) \<longrightarrow>
      snd (handleGenerateCustom g uuid) = Some (createVariation uuid ''Personalizado'' (customAdPrompt g)) \<and>
      variations (fst (handleGenerateCustom g uuid))
        = createVariation uuid ''Personalizado'' (customAdPrompt g) # variations g \<and>
      in_flight (createVariation uuid ''Personalizado'' (customAdPrompt g)) \<and>
      processVariation (adBaseImage g) (createVariation uuid ''Personalizado'' (customAdPrompt g)) oc
          (variations (fst (handleGenerateCustom g uuid)))
        = variations (fst (handleGenerateCustom g uuid)) \<and>
      run_completions b (variations (fst (handleGenerateCustom g uuid))) evs
        = createVariation uuid ''Personalizado'' (customAdPrompt g) # run_completions b (variations g) evs) \<and>
   length (processVariation (Some img) variation oc vs) = length vs \<and>
   (\<forall>k<length vs.
      (id_v (vs ! k) \<noteq> id_v variation \<longrightarrow> processVariation (Some img) variation oc vs ! k = vs ! k) \<and>
      (id_v (vs ! k) = id_v variation \<longrightarrow>
         processVariation (Some img) variation oc vs ! k = settle_record oc (vs ! k) \<and>
         id_v (processVariation (Some img) variation oc vs ! k) = id_v (vs ! k) \<and>
         label (processVariation (Some img) variation oc vs ! k) = label (vs ! k) \<and>
         prompt_v (processVariation (Some img) variation oc vs ! k) = prompt_v (vs ! k) \<and>
         \<not> loading (processVariation (Some img) variation oc vs ! k)))"
proof -
  let ?nv = "createVariation uuid ''Personalizado'' (customAdPrompt g)"
  have a: "processVariation None variation oc vs = vs"
    by (simp add: processVariation_def)
  have b: "snd (handleGenerateCustom g uuid) = Some ?nv \<and>
           variations (fst (handleGenerateCustom g uuid)) = ?nv # variations g \<and>
           in_flight ?nv"
    if "trim (customAdPrompt g) \<noteq> []"
    using that by (simp add: handleGenerateCustom_def Let_def createVariation_def in_flight_def)
  have c: "run_completions b (?nv # variations g) evs = ?nv # run_completions b (variations g) evs"
    if "\<forall>e\<in>set evs. id_v (fst e) \<noteq> uuid"
    using that by (intro run_other_ids) (simp add: createVariation_def)
  have d: "length (processVariation (Some img) variation oc vs) = length vs"
    by (simp add: processVariation_def)
  have e: "processVariation (Some img) variation oc vs ! k
           = (if id_v (vs ! k) = id_v variation then settle_record oc (vs ! k) else vs ! k)"
    if "k < length vs" for k
    using that by (simp add: processVariation_def)
  from a b c d e show ?thesis
    by (simp add: settle_record_fields processVariation_def)
qed

theorem process_without_base_image_witness:
  "adBaseImage demo_generator = None \<and> trim (customAdPrompt demo_generator) \<noteq> [] \<and>
   id_v (demo_new 1) \<noteq> ''u1'' \<and>
   run_completions (Some (demo_file 0)) (variations (fst (handleGenerateCustom demo_generator ''u1'')))
       [(demo_new 1, Fulfilled ''data:b'')]
     = [createVariation ''u1'' ''Personalizado'' ''beach sand''] \<and>
   processVariation None (createVariation ''u1'' ''Personalizado'' ''beach sand'') (Fulfilled ''data:a'')
       (variations (fst (handleGenerateCustom demo_generator ''u1'')))
     = [createVariation ''u1'' ''Personalizado'' ''beach sand''] \<and>
   processVariation (Some (demo_file 0)) (demo_new 0) (Fulfilled ''data:a'') [demo_new 1, demo_new 0]
     = [demo_new 1, (demo_new 0)\<lparr>url := Some ''data:a'', loading := False\<rparr>]"
proof -
  have h: "adBaseImage demo_generator = None" "trim (customAdPrompt demo_generator) \<noteq> []"
    "\<forall>e\<in>set [(demo_new 1, Fulfilled ''data:b'')]. id_v (fst e) \<noteq> ''u1''"
    by (simp_all add: demo_generator_def trim_def is_js_space_def demo_new_def demo_batch_def
        createVariation_def)
  have k: "(0::nat) < length [demo_new 1, demo_new 0]" "(1::nat) < length [demo_new 1, demo_new 0]"
    by simp_all
  have i: "id_v ([demo_new 1, demo_new 0] ! 0) \<noteq> id_v (demo_new 0)"
          "id_v ([demo_new 1, demo_new 0] ! 1) = id_v (demo_new 0)"
    by (simp_all add: demo_new_def demo_batch_def createVariation_def)
  note t = process_without_base_image [of "demo_new 0" "Fulfilled ''data:a''" "[demo_new 1, demo_new 0]"
      demo_generator "[(demo_new 1, Fulfilled ''data:b'')]" "''u1''" "Some (demo_file 0)" "demo_file 0"]
  from t h have r: "run_completions (Some (demo_file 0)) (variations (fst (handleGenerateCustom demo_generator ''u1'')))
       [(demo_new 1, Fulfilled ''data:b'')]
     = createVariation ''u1'' ''Personalizado'' (customAdPrompt demo_generator)
       # run_completions (Some (demo_file 0)) (variations demo_generator) [(demo_new 1, Fulfilled ''data:b'')]"
    by blast
  from t k i have e0: "processVariation (Some (demo_file 0)) (demo_new 0) (Fulfilled ''data:a'') [demo_new 1, demo_new 0] ! 0
      = [demo_new 1, demo_new 0] ! 0"
    and e1: "processVariation (Some (demo_file 0)) (demo_new 0) (Fulfilled ''data:a'') [demo_new 1, demo_new 0] ! 1
      = settle_record (Fulfilled ''data:a'') ([demo_new 1, demo_new 0] ! 1)"
    and len: "length (processVariation (Some (demo_file 0)) (demo_new 0) (Fulfilled ''data:a'') [demo_new 1, demo_new 0]) = 2"
    by simp_all
  have "processVariation (Some (demo_file 0)) (demo_new 0) (Fulfilled ''data:a'') [demo_new 1, demo_new 0]
        = [demo_new 1, (demo_new 0)\<lparr>url := Some ''data:a'', loading := False\<rparr>]"
    by (rule nth_equalityI) (use e0 e1 len in \<open>auto simp add: less_Suc_eq numeral_2_eq_2\<close>)
  with r h show ?thesis
    by (simp add: demo_generator_def run_completions_def processVariation_def handleGenerateCustom_def
        Let_def demo_new_def demo_batch_def createVariation_def)
qed

section \<open>The click on the image: proofs\<close>

text \<open>
  Claim C5, as amended. A click while the retouch tab is active stores the hotspot
  (round(dx * (NW / CW)), round(dy * (NH / CH))), where (dx, dy) is the offset of the
  pointer from the corner of the image, and the subtraction, the division and the
  multiplication are those of binary64 numbers, each rounding its exact result; at offset
  (120, 80) on the image displayed at 400 by 300 with natural size 1600 by 1200 the hotspot
  is (480, 320). A click while another tab is active leaves the state as it was.
\<close>

theorem click_hotspot_scaled:
  "(activeTab st = Retouch \<longrightarrow>
      editHotspot (handleImageClick st e) =
        Some \<lparr>hotspot_x = jsround (jsmul (jssub (clientX e) (rect_left e))
                              (jsdiv (of_nat (naturalWidth e)) (of_nat (clientWidth e)))),
              hotspot_y = jsround (jsmul (jssub (clientY e) (rect_top e))
                              (jsdiv (of_nat (naturalHeight e)) (of_nat (clientHeight e))))\<rparr>) \<and>
   (activeTab st = Retouch \<longrightarrow>
      editHotspot (handleImageClick st demo_click) = Some \<lparr>hotspot_x = Fin 480, hotspot_y = Fin 320\<rparr>) \<and>
   (activeTab st \<noteq> Retouch \<longrightarrow> handleImageClick st e = st)"
  by (simp add: handleImageClick_def Let_def demo_click_def demo_scale demo_offsets demo_products
      floor_eq_iff)

theorem click_hotspot_scaled_witness:
  "activeTab demo_retouch = Retouch \<and> editHotspot demo_retouch = None \<and>
   clientX demo_click - rect_left demo_click = 120 \<and> clientY demo_click - rect_top demo_click = 80 \<and>
   editHotspot (handleImageClick demo_retouch demo_click) = Some \<lparr>hotspot_x = Fin 480, hotspot_y = Fin 320\<rparr> \<and>
   editHotspot (handleImageClick demo_retouch demo_click_inexact) = Some \<lparr>hotspot_x = Fin 100, hotspot_y = Fin 112\<rparr> \<and>
   activeTab demo_editor \<noteq> Retouch \<and>
   handleImageClick demo_editor demo_click = demo_editor"
proof -
  have t: "activeTab demo_retouch = Retouch" "activeTab demo_editor \<noteq> Retouch" "editHotspot demo_retouch = None"
    by (simp_all add: demo_retouch_def demo_editor_def)
  have o: "clientX demo_click - rect_left demo_click = 120" "clientY demo_click - rect_top demo_click = 80"
    by (simp_all add: demo_click_def)
  from click_hotspot_scaled [of demo_retouch demo_click_inexact] t
  have "editHotspot (handleImageClick demo_retouch demo_click_inexact)
        = Some \<lparr>hotspot_x = jsround (jsmul (jssub 60 10) (jsdiv 201 100)),
                hotspot_y = jsround (jsmul (jssub 41 20) (jsdiv 750 140))\<rparr>"
    by (simp add: demo_click_inexact_def)
  then have i: "editHotspot (handleImageClick demo_retouch demo_click_inexact)
        = Some \<lparr>hotspot_x = Fin 100, hotspot_y = Fin 112\<rparr>"
    by (simp add: inexact_x inexact_y floor_eq_iff)
  from click_hotspot_scaled [of demo_retouch demo_click] click_hotspot_scaled [of demo_editor demo_click] t
  have "editHotspot (handleImageClick demo_retouch demo_click) = Some \<lparr>hotspot_x = Fin 480, hotspot_y = Fin 320\<rparr>"
    and "handleImageClick demo_editor demo_click = demo_editor"
    by blast+
  with t o i show ?thesis by simp
qed


text \<open>
  Claim C5 as stated fails in two ways. A click while the adjust tab is active stores no
  hotspot. And in the retouch tab, at offset (50, 21) on the image displayed at 100 by 140
  with natural size 201 by 750, the stored hotspot is (100, 112), while the formula of the
  claim, computed exactly, gives (101, 113): the quotient 201 / 100 is not a binary64
  number, and the rounded product lies below 100.5.
\<close>

theorem click_hotspot_counterexample:
  "activeTab demo_editor = Adjust \<and>
   editHotspot (handleImageClick demo_editor demo_click) = None \<and>
   clientX demo_click_inexact - rect_left demo_click_inexact = 50 \<and>
   clientY demo_click_inexact - rect_top demo_click_inexact = 21 \<and>
   editHotspot (handleImageClick demo_retouch demo_click_inexact)
     = Some \<lparr>hotspot_x = Fin 100, hotspot_y = Fin 112\<rparr> \<and>
   \<lfloor>(50 :: rat) * 201 / 100 + 1 / 2\<rfloor> = 101 \<and>
   \<lfloor>(21 :: rat) * 750 / 140 + 1 / 2\<rfloor> = 113"
proof -
  have a: "activeTab demo_editor = Adjust" "editHotspot (handleImageClick demo_editor demo_click) = None"
    by (simp_all add: handleImageClick_def demo_editor_def)
  have b: "editHotspot (handleImageClick demo_retouch demo_click_inexact)
           = Some \<lparr>hotspot_x = jsround (jsmul (jssub 60 10) (jsdiv 201 100)),
                   hotspot_y = jsround (jsmul (jssub 41 20) (jsdiv 750 140))\<rparr>"
    by (simp add: handleImageClick_def Let_def demo_retouch_def demo_editor_def demo_click_inexact_def)
  have c: "jsround (jsmul (jssub 60 10) (jsdiv 201 100)) = Fin 100"
          "jsround (jsmul (jssub 41 20) (jsdiv 750 140)) = Fin 112"
    by (simp_all add: inexact_x inexact_y floor_eq_iff)
  have d: "\<lfloor>(50 :: rat) * 201 / 100 + 1 / 2\<rfloor> = 101" "\<lfloor>(21 :: rat) * 750 / 140 + 1 / 2\<rfloor> = 113"
    by (simp_all add: floor_eq_iff)
  from a b c d show ?thesis by (simp add: demo_click_inexact_def)
qed

section \<open>The resize request: proofs\<close>

text \<open>
  Claim C6. The aspect ratio in the request of a resize is 3:4 for the target 4:5, and
  the target itself for every other target: 1:1 for 1:1 and 9:16 for 9:16.
\<close>

theorem resize_ratio_remap:
  "aspectRatio (generateResizedImage f Ratio_4_5) = ''3:4'' \<and>
   aspectRatio (generateResizedImage f Ratio_1_1) = ''1:1'' \<and>
   aspectRatio (generateResizedImage f Ratio_9_16) = ''9:16'' \<and>
   (t \<noteq> Ratio_4_5 \<longrightarrow> aspectRatio (generateResizedImage f t) = ratio_text t)"
  by (cases t) (simp_all add: generateResizedImage_def Let_def)

theorem resize_ratio_remap_witness:
  "Ratio_9_16 \<noteq> Ratio_4_5 \<and>
   aspectRatio (generateResizedImage (demo_file 0) Ratio_9_16) = ratio_text Ratio_9_16 \<and>
   aspectRatio (generateResizedImage (demo_file 0) Ratio_4_5) = ''3:4''"
  using resize_ratio_remap [of "demo_file 0" Ratio_9_16] by simp

section \<open>The localized edit: proofs\<close>

text \<open>
  Claim C9. When no image is loaded, or the instruction is empty after trimming, or no
  hotspot is selected, \<open>handleGenerate\<close> hands no request to the network adapter and
  changes nothing but the error message, which it sets; the history, the cursor and the
  hotspots are as before. A request is handed over exactly when an image is loaded, the
  trimmed instruction is not empty and a hotspot is selected.
\<close>

theorem validation_blocks_dispatch:
  "(currentImage st = None \<or> trim (prompt st) = [] \<or> editHotspot st = None \<longrightarrow>
      snd (handleGenerate st) = None \<and>
      (\<exists>msg. fst (handleGenerate st) = st\<lparr>error := Some msg\<rparr>) \<and>
      history (fst (handleGenerate st)) = history st \<and>
      historyIndex (fst (handleGenerate st)) = historyIndex st \<and>
      editHotspot (fst (handleGenerate st)) = editHotspot st \<and>
      displayHotspot (fst (handleGenerate st)) = displayHotspot st) \<and>
   (snd (handleGenerate st) \<noteq> None \<longleftrightarrow>
      currentImage st \<noteq> None \<and> trim (prompt st) \<noteq> [] \<and> editHotspot st \<noteq> None)"
  by (auto simp add: handleGenerate_def split: option.splits)

theorem validation_blocks_dispatch_witness:
  "trim (prompt demo_editor) = [] \<and>
   snd (handleGenerate demo_editor) = None \<and>
   error (fst (handleGenerate demo_editor)) = Some msg_no_prompt \<and>
   history (fst (handleGenerate demo_editor)) = history demo_editor \<and>
   currentImage demo_ready \<noteq> None \<and> trim (prompt demo_ready) \<noteq> [] \<and> editHotspot demo_ready \<noteq> None \<and>
   snd (handleGenerate demo_ready) \<noteq> None"
proof -
  have a: "trim (prompt demo_editor) = []"
    by (simp add: demo_editor_def trim_def is_js_space_def)
  have b: "currentImage demo_ready \<noteq> None" "trim (prompt demo_ready) \<noteq> []" "editHotspot demo_ready \<noteq> None"
    by (simp_all add: demo_ready_def demo_editor_def currentImage_def js_index_def trim_def is_js_space_def)
  have c: "error (fst (handleGenerate demo_editor)) = Some msg_no_prompt"
    by (simp add: handleGenerate_def demo_editor_def currentImage_def js_index_def trim_def is_js_space_def)
  from validation_blocks_dispatch [of demo_editor] validation_blocks_dispatch [of demo_ready] a b c
  show ?thesis by blast
qed

section \<open>The chat adapter: proofs\<close>

lemma cleanup_plain: "\<not> starts_bracket s \<Longrightarrow> cleanup parse (JStr s) = JStr s"
  by (simp add: cleanup_def)

lemma cleanup_unparsed: "parse s = None \<Longrightarrow> cleanup parse (JStr s) = JStr s"
  by (simp add: cleanup_def)

lemma cleanup_array_output:
  "starts_bracket t \<Longrightarrow> parse t = Some (JArr (p0 # rest)) \<Longrightarrow> p0 \<noteq> JNull \<Longrightarrow>
   get_field p0 ''output'' = Some v \<Longrightarrow> truthy v \<Longrightarrow> cleanup parse (JStr t) = v"
  by (simp add: cleanup_def)

lemma cleanup_object_output:
  "starts_bracket t \<Longrightarrow> parse t = Some (JObj kvs) \<Longrightarrow>
   get_field (JObj kvs) ''output'' = Some v \<Longrightarrow> truthy v \<Longrightarrow> cleanup parse (JStr t) = v"
  by (simp add: cleanup_def)

lemma extract_array_field:
  "first \<noteq> JNull \<Longrightarrow> message_field first = Some v \<Longrightarrow> truthy v \<Longrightarrow>
   extract_text stringify (JArr (first # rest)) = Inr v"
  by (cases first) (simp_all add: extract_text_def)

lemma extract_object_field:
  "message_field (JObj kvs) = Some v \<Longrightarrow> truthy v \<Longrightarrow>
   extract_text stringify (JObj kvs) = Inr v"
  by (simp add: extract_text_def)

lemma extract_string: "extract_text stringify (JStr t) = Inr (JStr t)"
  by (simp add: extract_text_def)

text \<open>
  Claim C8, as amended. For a successful reply, with \<open>JSON.parse\<close> and
  \<open>JSON.stringify\<close> as parameters: a body announced as JSON that is an array shows the
  message field of its first element, and one that is an object shows its own message
  field (the first truthy one of output, text, message, response, when it is a string that
  does not begin with a bracket); a body not announced as JSON is shown as it is when it
  does not begin with a bracket or does not parse, and shows the output of the first
  element when it parses to an array that has one; a body that is a JSON string holding
  the text of an object is parsed a second time and shows the output of that object; a
  failure of the second parse leaves the text as it is; a failure of the first parse, of a
  body announced as JSON, shows the fixed message of the \<open>catch\<close> block.
\<close>

theorem chat_reply_parsing:
  "(ok r \<and> announces_json r \<and> parse (body r) = Some (JArr (first # rest)) \<and> first \<noteq> JNull \<and>
      message_field first = Some (JStr s) \<and> s \<noteq> [] \<and> \<not> starts_bracket s \<longrightarrow>
        bot_message_text parse stringify (Response r) = JStr s) \<and>
   (ok r \<and> announces_json r \<and> parse (body r) = Some (JObj kvs) \<and>
      message_field (JObj kvs) = Some (JStr s) \<and> s \<noteq> [] \<and> \<not> starts_bracket s \<longrightarrow>
        bot_message_text parse stringify (Response r) = JStr s) \<and>
   (ok r \<and> \<not> announces_json r \<and> \<not> starts_bracket (body r) \<longrightarrow>
        bot_message_text parse stringify (Response r) = JStr (body r)) \<and>
   (ok r \<and> \<not> announces_json r \<and> starts_bracket (body r) \<and>
      parse (body r) = Some (JArr (first # rest)) \<and> first \<noteq> JNull \<and>
      get_field first ''output'' = Some (JStr s) \<and> s \<noteq> [] \<longrightarrow>
        bot_message_text parse stringify (Response r) = JStr s) \<and>
   (ok r \<and> announces_json r \<and> parse (body r) = Some (JStr t) \<and> starts_bracket t \<and>
      parse t = Some (JObj kvs) \<and> get_field (JObj kvs) ''output'' = Some (JStr s) \<and> s \<noteq> [] \<longrightarrow>
        bot_message_text parse stringify (Response r) = JStr s) \<and>
   (ok r \<and> \<not> announces_json r \<and> parse (body r) = None \<longrightarrow>
        bot_message_text parse stringify (Response r) = JStr (body r)) \<and>
   (ok r \<and> announces_json r \<and> parse (body r) = Some (JStr t) \<and> parse t = None \<longrightarrow>
        bot_message_text parse stringify (Response r) = JStr t) \<and>
   (ok r \<and> announces_json r \<and> parse (body r) = None \<longrightarrow>
        bot_message_text parse stringify (Response r) = JStr msg_server_problem)"
  by (simp add: bot_message_text_def first_pass_def extract_array_field extract_object_field
      extract_string cleanup_plain cleanup_unparsed cleanup_array_output cleanup_object_output)

lemma parse_array: "json_parse body_array = Some (JArr [JObj [(''output'', JStr ''hello'')]])"
  by code_simp

lemma parse_object: "json_parse body_object = Some (JObj [(''output'', JStr ''nested'')])"
  by code_simp

lemma parse_quoted: "json_parse (quote body_object) = Some (JStr body_object)"
  by code_simp

lemma parse_quoted_broken: "json_parse (quote body_broken) = Some (JStr body_broken)"
  by code_simp

lemma parse_plain: "json_parse body_plain = None"
  by code_simp

lemma parse_broken: "json_parse body_broken = None"
  by code_simp

lemma announces:
  "announces_json (demo_response ''application/json'' b)"
  "\<not> announces_json (demo_response ''text/plain'' b)"
  by (simp_all add: announces_json_def demo_response_def)

lemma demo_response_fields:
  "ok (demo_response ct b)" "body (demo_response ct b) = b"
  by (simp_all add: demo_response_def)

lemma brackets:
  "starts_bracket body_array" "starts_bracket body_object" "starts_bracket body_broken"
  "\<not> starts_bracket body_plain" "\<not> starts_bracket ''hello''" "\<not> starts_bracket ''nested''"
  by (simp_all add: starts_bracket_def body_array_def body_object_def body_broken_def body_plain_def)

lemma fields:
  "message_field (JObj [(''output'', JStr ''hello'')]) = Some (JStr ''hello'')"
  "message_field (JObj [(''output'', JStr ''nested'')]) = Some (JStr ''nested'')"
  "get_field (JObj [(''output'', JStr ''hello'')]) ''output'' = Some (JStr ''hello'')"
  "get_field (JObj [(''output'', JStr ''nested'')]) ''output'' = Some (JStr ''nested'')"
  by (simp_all add: message_field_def js_or_def)

theorem chat_reply_parsing_witness:
  "bot_message_text json_parse json_stringify (Response (demo_response ''application/json'' body_array))
     = JStr ''hello'' \<and>
   bot_message_text json_parse json_stringify (Response (demo_response ''application/json'' body_object))
     = JStr ''nested'' \<and>
   bot_message_text json_parse json_stringify (Response (demo_response ''text/plain'' body_plain))
     = JStr ''plain text'' \<and>
   bot_message_text json_parse json_stringify (Response (demo_response ''text/plain'' body_array))
     = JStr ''hello'' \<and>
   bot_message_text json_parse json_stringify (Response (demo_response ''application/json'' (quote body_object)))
     = JStr ''nested'' \<and>
   bot_message_text json_parse json_stringify (Response (demo_response ''text/plain'' body_broken))
     = JStr body_broken \<and>
   bot_message_text json_parse json_stringify (Response (demo_response ''application/json'' (quote body_broken)))
     = JStr body_broken \<and>
   bot_message_text json_parse json_stringify (Response (demo_response ''application/json'' body_plain))
     = JStr msg_server_problem"
proof -
  note facts = parse_array parse_object parse_quoted parse_quoted_broken parse_plain parse_broken
    announces demo_response_fields brackets fields
  have 1: "bot_message_text json_parse json_stringify (Response (demo_response ''application/json'' body_array))
     = JStr ''hello''"
    using chat_reply_parsing [where r = "demo_response ''application/json'' body_array"
        and parse = json_parse and stringify = json_stringify
        and first = "JObj [(''output'', JStr ''hello'')]" and rest = "[]" and s = "''hello''"]
    by (simp add: facts)
  have 2: "bot_message_text json_parse json_stringify (Response (demo_response ''application/json'' body_object))
     = JStr ''nested''"
    using chat_reply_parsing [where r = "demo_response ''application/json'' body_object"
        and parse = json_parse and stringify = json_stringify
        and kvs = "[(''output'', JStr ''nested'')]" and s = "''nested''"]
    by (simp add: facts)
  have 3: "bot_message_text json_parse json_stringify (Response (demo_response ''text/plain'' body_plain))
     = JStr ''plain text''"
    using chat_reply_parsing [where r = "demo_response ''text/plain'' body_plain"
        and parse = json_parse and stringify = json_stringify]
    by (simp add: facts) (simp add: body_plain_def)
  have 4: "bot_message_text json_parse json_stringify (Response (demo_response ''text/plain'' body_array))
     = JStr ''hello''"
    using chat_reply_parsing [where r = "demo_response ''text/plain'' body_array"
        and parse = json_parse and stringify = json_stringify
        and first = "JObj [(''output'', JStr ''hello'')]" and rest = "[]" and s = "''hello''"]
    by (simp add: facts)
  have 5: "bot_message_text json_parse json_stringify (Response (demo_response ''application/json'' (quote body_object)))
     = JStr ''nested''"
    using chat_reply_parsing [where r = "demo_response ''application/json'' (quote body_object)"
        and parse = json_parse and stringify = json_stringify and t = body_object
        and kvs = "[(''output'', JStr ''nested'')]" and s = "''nested''"]
    by (simp add: facts)
  have 6: "bot_message_text json_parse json_stringify (Response (demo_response ''text/plain'' body_broken))
     = JStr body_broken"
    using chat_reply_parsing [where r = "demo_response ''text/plain'' body_broken"
        and parse = json_parse and stringify = json_stringify]
    by (simp add: facts)
  have 7: "bot_message_text json_parse json_stringify (Response (demo_response ''application/json'' (quote body_broken)))
     = JStr body_broken"
    using chat_reply_parsing [where r = "demo_response ''application/json'' (quote body_broken)"
        and parse = json_parse and stringify = json_stringify and t = body_broken]
    by (simp add: facts)
  have 8: "bot_message_text json_parse json_stringify (Response (demo_response ''application/json'' body_plain))
     = JStr msg_server_problem"
    using chat_reply_parsing [where r = "demo_response ''application/json'' body_plain"
        and parse = json_parse and stringify = json_stringify]
    by (simp add: facts)
  from 1 2 3 4 5 6 7 8 show ?thesis by blast
qed

text \<open>
  Claim C8 as stated fails for a reply that announces JSON and whose body is not JSON: the
  parse of \<open>response.json()\<close> throws, the outer \<open>catch\<close> takes over, and the bot
  message is the fixed text about a connection problem, not the body.
\<close>

theorem announced_json_unparsable_counterexample:
  "ok (demo_response ''application/json'' ''plain text'') \<and>
   json_parse ''plain text'' = None \<and>
   bot_message_text json_parse json_stringify (Response (demo_response ''application/json'' ''plain text''))
     = JStr ''Lo siento, hubo un problema al conectar con el servidor.'' \<and>
   bot_message_text json_parse json_stringify (Response (demo_response ''application/json'' ''plain text''))
     \<noteq> JStr ''plain text''"
proof -
  have p: "json_parse ''plain text'' = None" by code_simp
  have "bot_message_text json_parse json_stringify (Response (demo_response ''application/json'' ''plain text''))
     = JStr ''Lo siento, hubo un problema al conectar con el servidor.''"
    using p by (simp add: bot_message_text_def first_pass_def announces demo_response_fields msg_server_problem_def)
  with p show ?thesis by (simp add: demo_response_def)
qed

end
